theory Spec2Isabelle
  imports Complex_Main "HOL-Library.Multiset"
begin

section \<open>JavaScript numbers\<close>

text \<open>
  A JavaScript number is NaN, an infinity or a finite value. A finite value is represented
  by the real number it denotes and a decimal literal of the source (\<open>0.5\<close>, \<open>0.60\<close>)
  by its decimal value; arithmetic on finite values is exact. Comparisons, \<open>Math.min\<close>,
  \<open>Math.max\<close> and the truthiness test of \<open>||\<close> follow the language.
\<close>

datatype jsnum = NaN | NInf | Fin real | PInf

fun js_lt :: "jsnum \<Rightarrow> jsnum \<Rightarrow> bool" where
  "js_lt NaN _ = False"
| "js_lt _ NaN = False"
| "js_lt NInf NInf = False"
| "js_lt NInf _ = True"
| "js_lt (Fin x) (Fin y) = (x < y)"
| "js_lt (Fin x) PInf = True"
| "js_lt (Fin x) NInf = False"
| "js_lt PInf _ = False"

fun js_le :: "jsnum \<Rightarrow> jsnum \<Rightarrow> bool" where
  "js_le NaN _ = False"
| "js_le _ NaN = False"
| "js_le a b = (a = b \<or> js_lt a b)"

fun isFinite :: "jsnum \<Rightarrow> bool" where
  "isFinite (Fin x) = True"
| "isFinite _ = False"

text \<open>\<open>x || 0\<close> on a number: NaN and zero are falsy.\<close>

fun or0 :: "jsnum \<Rightarrow> jsnum" where
  "or0 NaN = Fin 0"
| "or0 (Fin x) = (if x = 0 then Fin 0 else Fin x)"
| "or0 n = n"

fun Math_min :: "jsnum \<Rightarrow> jsnum \<Rightarrow> jsnum" where
  "Math_min NaN _ = NaN"
| "Math_min _ NaN = NaN"
| "Math_min a b = (if js_lt b a then b else a)"

fun Math_max :: "jsnum \<Rightarrow> jsnum \<Rightarrow> jsnum" where
  "Math_max NaN _ = NaN"
| "Math_max _ NaN = NaN"
| "Math_max a b = (if js_lt a b then b else a)"

text \<open>\<open>Math.round\<close> rounds to the nearest integer, a half towards plus infinity.\<close>

definition Math_round :: "real \<Rightarrow> int" where
  "Math_round x = \<lfloor>x + 1 / 2\<rfloor>"

section \<open>The score colour gradient (\<open>colorForScore\<close>)\<close>

definition clamp :: "jsnum \<Rightarrow> jsnum" where
  "clamp x = Math_max (Fin 0) (Math_min (Fin 1) (or0 x))"

definition hex_chars :: string where
  "hex_chars = ''0123456789abcdef''"

text \<open>The value of a hexadecimal digit, in either case, as \<open>parseInt(_, 16)\<close> reads it.\<close>

definition hex_value :: "char \<Rightarrow> nat option" where
  "hex_value c = map_of (zip (hex_chars @ ''ABCDEF'') ([0 ..< 16] @ [10 ..< 16])) c"

text \<open>
  \<open>parseInt(s, 16)\<close> on a string without sign, blanks or \<open>0x\<close>: the longest prefix of
  hexadecimal digits is read; with no digit the result is NaN (\<open>None\<close>).
\<close>

definition parseInt16 :: "string \<Rightarrow> int option" where
  "parseInt16 s =
     (let ds = takeWhile (\<lambda>c. hex_value c \<noteq> None) s
      in if ds = [] then None
         else Some (foldl (\<lambda>a c. 16 * a + int (the (hex_value c))) 0 ds))"

text \<open>\<open>s.replace('#', '')\<close>: the first \<open>#\<close> is removed.\<close>

fun strip_hash :: "string \<Rightarrow> string" where
  "strip_hash [] = []"
| "strip_hash (c # cs) = (if c = CHR ''#'' then cs else c # strip_hash cs)"

definition hexToRgb :: "string \<Rightarrow> (int \<times> int \<times> int) option" where
  "hexToRgb h =
     (let s = strip_hash h
      in case (parseInt16 (take 2 s), parseInt16 (take 2 (drop 2 s)), parseInt16 (take 2 (drop 4 s))) of
           (Some r, Some g, Some b) \<Rightarrow> Some (r, g, b)
         | _ \<Rightarrow> None)"

text \<open>\<open>n.toString(16)\<close> on an integer: lower-case digits, a minus sign when negative.\<close>

function hex_digits :: "nat \<Rightarrow> string" where
  "hex_digits n = (if n < 16 then [hex_chars ! n] else hex_digits (n div 16) @ [hex_chars ! (n mod 16)])"
  by pat_completeness auto
termination
  by (relation "measure id") auto

declare hex_digits.simps [simp del]

definition toString16 :: "int \<Rightarrow> string" where
  "toString16 n = (if n < 0 then CHR ''-'' # hex_digits (nat (- n)) else hex_digits (nat n))"

definition padStart2 :: "string \<Rightarrow> string" where
  "padStart2 s = replicate (2 - length s) CHR ''0'' @ s"

definition rgbToHex :: "int \<times> int \<times> int \<Rightarrow> string" where
  "rgbToHex c = (case c of (r, g, b) \<Rightarrow> CHR ''#'' # concat (map (\<lambda>n. padStart2 (toString16 n)) [r, g, b]))"

text \<open>
  The channels are blended in exact arithmetic. At the stops (\<open>t\<close> is 0 or 1) every channel
  is an integer and the source, which computes in doubles, gives the same value; between
  the stops the two can differ by one in a channel whose value lies within the rounding
  error of a half.
\<close>

definition blend :: "int \<times> int \<times> int \<Rightarrow> int \<times> int \<times> int \<Rightarrow> real \<Rightarrow> int \<times> int \<times> int" where
  "blend a b t =
     (case (a, b) of ((a0, a1, a2), (b0, b1, b2)) \<Rightarrow>
        (Math_round (real_of_int a0 + (real_of_int b0 - real_of_int a0) * t),
         Math_round (real_of_int a1 + (real_of_int b1 - real_of_int a1) * t),
         Math_round (real_of_int a2 + (real_of_int b2 - real_of_int a2) * t)))"

text \<open>
  The last case stands for what the source would print for a clamped value that is not
  finite or a stop that does not parse; \<open>clamp_finite\<close> and \<open>stops_parse\<close> show that it
  is never taken.
\<close>

definition colorForScore :: "jsnum \<Rightarrow> string" where
  "colorForScore v0 =
     (case (clamp v0, hexToRgb ''#F8696B'', hexToRgb ''#FFEB84'', hexToRgb ''#63BE7B'') of
        (Fin v, Some RED, Some YEL, Some GRN) \<Rightarrow>
          rgbToHex (if v \<le> 1 / 2 then blend RED YEL (v / (1 / 2))
                    else blend YEL GRN ((v - 1 / 2) / (1 / 2)))
      | _ \<Rightarrow> ''#NaNNaNNaN'')"

section \<open>JavaScript values\<close>

text \<open>
  The values that \<open>JSON.parse\<close> and the table rows hold. An object is the list of its own
  properties.
\<close>

datatype jsval =
    JUndefined | JNull | JBool bool | JNum jsnum | JStr string
  | JArr "jsval list" | JObj "(string \<times> jsval) list"

text \<open>Truthiness, as \<open>||\<close>, \<open>!\<close> and \<open>if\<close> test it.\<close>

fun truthy :: "jsval \<Rightarrow> bool" where
  "truthy JUndefined = False"
| "truthy JNull = False"
| "truthy (JBool b) = b"
| "truthy (JNum n) = (n \<noteq> NaN \<and> n \<noteq> Fin 0)"
| "truthy (JStr s) = (s \<noteq> [])"
| "truthy (JArr _) = True"
| "truthy (JObj _) = True"

text \<open>
  \<open>String(v)\<close>: the identity on a string; the conversion of any other value is the
  language's and is a parameter \<open>S\<close> of the model.
\<close>

definition ToString :: "(jsval \<Rightarrow> string) \<Rightarrow> jsval \<Rightarrow> string" where
  "ToString S v = (case v of JStr s \<Rightarrow> s | _ \<Rightarrow> S v)"

definition endsWith :: "string \<Rightarrow> string \<Rightarrow> bool" where
  "endsWith s suffix = (length suffix \<le> length s \<and> drop (length s - length suffix) s = suffix)"

text \<open>Division of a number by a positive finite constant.\<close>

fun js_div_pos :: "jsnum \<Rightarrow> real \<Rightarrow> jsnum" where
  "js_div_pos (Fin x) d = Fin (x / d)"
| "js_div_pos n d = n"

section \<open>The score cell of the two renderers\<close>

definition to_upper :: "char \<Rightarrow> char" where
  "to_upper c =
     (case map_of (zip ''abcdefghijklmnopqrstuvwxyz'' ''ABCDEFGHIJKLMNOPQRSTUVWXYZ'') c of
        Some u \<Rightarrow> u | None \<Rightarrow> c)"

definition toUpperCase :: "string \<Rightarrow> string" where
  "toUpperCase s = map to_upper s"

text \<open>
  \<open>addSheet\<close> of \<open>buildExcelBuffer\<close>: the number read from the cell, with \<open>parseFloat\<close>
  the language's (parameter \<open>pf\<close>), the background chosen for it, and the fill colour
  written to the sheet.
\<close>

definition excel_value :: "(jsval \<Rightarrow> string) \<Rightarrow> (string \<Rightarrow> jsnum) \<Rightarrow> jsval \<Rightarrow> jsnum" where
  "excel_value S pf raw =
     (case raw of
        JNum n \<Rightarrow> n
      | _ \<Rightarrow> if endsWith (ToString S raw) ''%'' then js_div_pos (pf (ToString S raw)) 100
             else or0 (pf (ToString S raw)))"

definition excel_bg :: "jsnum \<Rightarrow> string" where
  "excel_bg v =
     (if isFinite v then (if js_lt v (Fin (60 / 100)) then ''#FCE4E4'' else colorForScore v)
      else ''#FFFFFF'')"

definition excel_fill :: "(jsval \<Rightarrow> string) \<Rightarrow> (string \<Rightarrow> jsnum) \<Rightarrow> jsval \<Rightarrow> string" where
  "excel_fill S pf raw = toUpperCase (strip_hash (excel_bg (excel_value S pf raw)))"

text \<open>\<open>dfToHtmlDoc\<close>: \<open>msNum\<close> and the background of the \<open>MatchScore\<close> cell.\<close>

definition msNum :: "(jsval \<Rightarrow> string) \<Rightarrow> (string \<Rightarrow> jsnum) \<Rightarrow> jsval \<Rightarrow> jsnum" where
  "msNum S pf x =
     (case x of
        JNum n \<Rightarrow> n
      | _ \<Rightarrow> if endsWith (ToString S x) ''%'' then js_div_pos (pf (ToString S x)) 100
             else pf (ToString S x))"

definition html_bg :: "jsnum \<Rightarrow> string" where
  "html_bg v =
     (let low = (isFinite v \<and> js_lt v (Fin (60 / 100)))
      in if low then ''#FCE4E4'' else (if isFinite v then colorForScore v else ''transparent''))"

definition html_cell_bg :: "(jsval \<Rightarrow> string) \<Rightarrow> (string \<Rightarrow> jsnum) \<Rightarrow> jsval \<Rightarrow> string" where
  "html_cell_bg S pf raw = html_bg (msNum S pf raw)"

section \<open>The oracle client (\<open>aoaiMapBatch\<close>)\<close>

datatype error = EnvMissing | TransportError | NonJSON | TypeError

text \<open>
  Subtraction of numbers, and \<open>Number(v)\<close>. The conversion of a string, an array or an
  object is the language's and is a parameter \<open>N\<close> of the model; it throws a \<open>TypeError\<close>
  (\<open>None\<close>) when the value has no primitive value, as the object \<open>{"toString": 0}\<close> and an
  array that holds it.
\<close>

fun js_sub :: "jsnum \<Rightarrow> jsnum \<Rightarrow> jsnum" where
  "js_sub NaN _ = NaN"
| "js_sub _ NaN = NaN"
| "js_sub (Fin x) (Fin y) = Fin (x - y)"
| "js_sub PInf PInf = NaN"
| "js_sub NInf NInf = NaN"
| "js_sub PInf _ = PInf"
| "js_sub NInf _ = NInf"
| "js_sub (Fin x) PInf = NInf"
| "js_sub (Fin x) NInf = PInf"

definition ToNumber :: "(jsval \<Rightarrow> jsnum option) \<Rightarrow> jsval \<Rightarrow> error + jsnum" where
  "ToNumber N v =
     (case v of
        JUndefined \<Rightarrow> Inr NaN
      | JNull \<Rightarrow> Inr (Fin 0)
      | JBool b \<Rightarrow> Inr (Fin (if b then 1 else 0))
      | JNum n \<Rightarrow> Inr n
      | _ \<Rightarrow> (case N v of None \<Rightarrow> Inl TypeError | Some n \<Rightarrow> Inr n))"

text \<open>\<open>Number(v) || 0\<close>.\<close>

definition Number_or0 :: "(jsval \<Rightarrow> jsnum option) \<Rightarrow> jsval \<Rightarrow> error + jsnum" where
  "Number_or0 N v = (case ToNumber N v of Inl e \<Rightarrow> Inl e | Inr n \<Rightarrow> Inr (or0 n))"

text \<open>
  \<open>String(v)\<close>, the text of \<open>v\<close> in a template literal or a string concatenation, and
  the property key that \<open>v\<close> stands for: the identity on a string. The conversion of any
  other value is the language's and is a parameter \<open>S\<close> of the model; it throws a
  \<open>TypeError\<close> (\<open>None\<close>) when the value has no primitive value.
\<close>

definition String_of :: "(jsval \<Rightarrow> string option) \<Rightarrow> jsval \<Rightarrow> error + string" where
  "String_of S v =
     (case v of
        JStr s \<Rightarrow> Inr s
      | _ \<Rightarrow> (case S v of None \<Rightarrow> Inl TypeError | Some s \<Rightarrow> Inr s))"

text \<open>
  A property read \<open>v.k\<close> on a value that is neither \<open>undefined\<close> nor \<open>null\<close>, for the
  property names this program reads on the values of \<open>JSON.parse\<close> and of the XML parser
  (none of them is a built-in property of a string, a number, a boolean, an array or an
  object). On \<open>undefined\<close> and \<open>null\<close> the read throws; the callers test \<open>nullish\<close>.
\<close>

definition get_prop :: "jsval \<Rightarrow> string \<Rightarrow> jsval" where
  "get_prop v k =
     (case v of
        JObj kvs \<Rightarrow> (case map_of kvs k of Some x \<Rightarrow> x | None \<Rightarrow> JUndefined)
      | _ \<Rightarrow> JUndefined)"

definition nullish :: "jsval \<Rightarrow> bool" where
  "nullish v = (v = JUndefined \<or> v = JNull)"

text \<open>\<open>v || ''\<close>.\<close>

definition or_empty :: "jsval \<Rightarrow> jsval" where
  "or_empty v = (if truthy v then v else JStr [])"

record mapping =
  SourceField :: jsval
  SuggestedTargetPath :: jsval
  MatchScore :: jsnum
  Rationale :: jsval

text \<open>
  The arrow function of \<open>mappings.map\<close>: reading a property of \<open>null\<close> throws, and so does
  \<open>Number\<close> on a score without primitive value.
\<close>

definition map_item :: "(jsval \<Rightarrow> jsnum option) \<Rightarrow> jsval \<Rightarrow> error + mapping" where
  "map_item N m =
     (if nullish m then Inl TypeError
      else case Number_or0 N (get_prop m ''score'') of
             Inl e \<Rightarrow> Inl e
           | Inr x \<Rightarrow>
               Inr \<lparr> SourceField = or_empty (get_prop m ''source''),
                     SuggestedTargetPath = or_empty (get_prop m ''target_path''),
                     MatchScore = x,
                     Rationale = or_empty (get_prop m ''rationale'') \<rparr>)"

fun map_items :: "(jsval \<Rightarrow> jsnum option) \<Rightarrow> jsval list \<Rightarrow> error + mapping list" where
  "map_items N [] = Inr []"
| "map_items N (m # ms) =
     (case map_item N m of
        Inl e \<Rightarrow> Inl e
      | Inr r \<Rightarrow> (case map_items N ms of Inl e \<Rightarrow> Inl e | Inr rs \<Rightarrow> Inr (r # rs)))"

text \<open>
  \<open>obj = typeof text === 'string' ? JSON.parse(text) : text\<close>, with \<open>JSON.parse\<close> a
  parameter \<open>P\<close> (\<open>None\<close> when it throws).
\<close>

definition parse_content :: "(string \<Rightarrow> jsval option) \<Rightarrow> jsval \<Rightarrow> error + jsval" where
  "parse_content P text =
     (case text of
        JStr s \<Rightarrow> (case P s of None \<Rightarrow> Inl NonJSON | Some obj \<Rightarrow> Inr obj)
      | _ \<Rightarrow> Inr text)"

text \<open>\<open>Array.isArray(obj) ? obj : (obj.mappings || [])\<close>.\<close>

definition mappings_of :: "jsval \<Rightarrow> error + jsval" where
  "mappings_of obj =
     (case obj of
        JArr ms \<Rightarrow> Inr obj
      | _ \<Rightarrow> if nullish obj then Inl TypeError
             else Inr (if truthy (get_prop obj ''mappings'') then get_prop obj ''mappings'' else JArr []))"

text \<open>\<open>mappings.map(...)\<close>: only an array has the method.\<close>

definition map_mappings :: "(jsval \<Rightarrow> jsnum option) \<Rightarrow> jsval \<Rightarrow> error + mapping list" where
  "map_mappings N mappings = (case mappings of JArr ms \<Rightarrow> map_items N ms | _ \<Rightarrow> Inl TypeError)"

text \<open>
  The reply of the oracle is the error thrown before the message content is in hand
  (missing configuration, transport failure, a body without \<open>choices[0].message\<close>) or
  that content.
\<close>

definition aoaiMapBatch ::
  "(string \<Rightarrow> jsval option) \<Rightarrow> (jsval \<Rightarrow> jsnum option) \<Rightarrow> error + jsval \<Rightarrow> error + mapping list" where
  "aoaiMapBatch P N reply =
     (case reply of
        Inl e \<Rightarrow> Inl e
      | Inr text \<Rightarrow>
          (case parse_content P text of
             Inl e \<Rightarrow> Inl e
           | Inr obj \<Rightarrow>
               (case mappings_of obj of
                  Inl e \<Rightarrow> Inl e
                | Inr mappings \<Rightarrow> map_mappings N mappings)))"

section \<open>Assembly in the \<open>/api/map\<close> handler\<close>

text \<open>
  A row of the target dictionary. \<open>path\<close> and \<open>name\<close> are the values that \<open>walk\<close> stores:
  strings for elements named by attributes, any truthy value of the parser otherwise.
\<close>

record entry =
  schema :: string
  path :: jsval
  name :: jsval
  type :: string
  minOccurs :: string
  maxOccurs :: string

record row = mapping +
  SourceOrder :: nat
  TargetSchema :: string
  TargetType :: string
  Occurs :: string
  SampleValue :: jsval

definition slice :: "nat \<Rightarrow> nat \<Rightarrow> 'a list \<Rightarrow> 'a list" where
  "slice i j xs = take (j - i) (drop i xs)"

text \<open>
  The batching loop. \<open>oracle i batch\<close> is the reply to the call made at offset \<open>i\<close> for
  \<open>batch\<close>; an error of a call leaves the loop.
\<close>

function map_batches ::
  "(string \<Rightarrow> jsval option) \<Rightarrow> (jsval \<Rightarrow> jsnum option) \<Rightarrow> (nat \<Rightarrow> string list \<Rightarrow> error + jsval) \<Rightarrow>
   string list \<Rightarrow> nat \<Rightarrow> mapping list \<Rightarrow> error + mapping list" where
  "map_batches P N oracle sourceFields i results =
     (if i < length sourceFields
      then (case aoaiMapBatch P N (oracle i (slice i (i + 60) sourceFields)) of
              Inl e \<Rightarrow> Inl e
            | Inr mapped \<Rightarrow> map_batches P N oracle sourceFields (i + 60) (results @ mapped))
      else Inr results)"
  by pat_completeness auto
termination
  by (relation "measure (\<lambda>(P, N, oracle, sourceFields, i, results). length sourceFields - i)") auto

declare map_batches.simps [simp del]

text \<open>The backfill: \<open>have\<close> is built once, from the oracle's results.\<close>

definition backfill :: "string list \<Rightarrow> mapping list \<Rightarrow> mapping list" where
  "backfill sourceFields results =
     (let have = set (map SourceField results)
      in results @
         map (\<lambda>c. \<lparr> SourceField = JStr c, SuggestedTargetPath = JStr [], MatchScore = Fin 0,
                     Rationale = JStr [] \<rparr>)
           (filter (\<lambda>c. JStr c \<notin> have) sourceFields))"

text \<open>
  The keys of a \<open>Map\<close> are compared by value when they are strings, numbers or booleans;
  an object or an array is the same key only as the same object, which a value of the
  oracle's reply and a value of the dictionary never are.
\<close>

definition same_key :: "jsval \<Rightarrow> jsval \<Rightarrow> bool" where
  "same_key k p =
     (case k of
        JArr _ \<Rightarrow> False
      | JObj _ \<Rightarrow> False
      | _ \<Rightarrow> k = p)"

text \<open>
  \<open>new Map(targetDict.map(r => [r.path, r]))\<close> and its \<open>get\<close>: of two entries with one
  path the later one stays.
\<close>

definition extraByPath :: "entry list \<Rightarrow> jsval \<Rightarrow> entry option" where
  "extraByPath targetDict key = find (\<lambda>r. same_key key (path r)) (rev targetDict)"

text \<open>
  \<open>v?.[0]\<close>: the first element of an array, the first character of a string, the property
  \<open>0\<close> of an object; \<open>undefined\<close> otherwise.
\<close>

definition first_of :: "jsval \<Rightarrow> jsval" where
  "first_of v =
     (case v of
        JArr xs \<Rightarrow> (case xs of [] \<Rightarrow> JUndefined | x # _ \<Rightarrow> x)
      | JStr s \<Rightarrow> (case s of [] \<Rightarrow> JUndefined | c # _ \<Rightarrow> JStr [c])
      | JObj kvs \<Rightarrow> get_prop v ''0''
      | _ \<Rightarrow> JUndefined)"

text \<open>
  One row of \<open>bySource\<close>. \<open>samples k\<close> is the value of the property read \<open>samples[k]\<close>: the
  sample values of the field \<open>k\<close>, \<open>undefined\<close> for a name that is no property, and for a
  name that the object inherits the inherited value (a function or prototype object being
  given as an object without properties). The property key is the string of
  \<open>r.SourceField\<close>; the conversion throws for a value without primitive value.
\<close>

definition join_row ::
  "(jsval \<Rightarrow> string option) \<Rightarrow> entry list \<Rightarrow> (string \<Rightarrow> jsval) \<Rightarrow> nat \<Rightarrow> mapping \<Rightarrow> error + row" where
  "join_row S targetDict samples idx r =
     (let extra = extraByPath targetDict (SuggestedTargetPath r)
      in case String_of S (SourceField r) of
           Inl e \<Rightarrow> Inl e
         | Inr key \<Rightarrow>
             Inr \<lparr> SourceField = SourceField r,
                   SuggestedTargetPath = SuggestedTargetPath r,
                   MatchScore = MatchScore r,
                   Rationale = or_empty (Rationale r),
                   SourceOrder = idx + 1,
                   TargetSchema = (case extra of Some e \<Rightarrow> schema e | None \<Rightarrow> []),
                   TargetType = (case extra of Some e \<Rightarrow> type e | None \<Rightarrow> []),
                   Occurs = (case extra of Some e \<Rightarrow> minOccurs e | None \<Rightarrow> []) @ ''..'' @
                            (case extra of Some e \<Rightarrow> maxOccurs e | None \<Rightarrow> []),
                   SampleValue = or_empty (first_of (samples key)) \<rparr>)"

text \<open>\<open>results.map((r, idx) => ...)\<close> from the index \<open>idx\<close> on; the first throw ends it.\<close>

fun join_rows ::
  "(jsval \<Rightarrow> string option) \<Rightarrow> entry list \<Rightarrow> (string \<Rightarrow> jsval) \<Rightarrow> nat \<Rightarrow> mapping list \<Rightarrow>
   error + row list" where
  "join_rows S targetDict samples idx [] = Inr []"
| "join_rows S targetDict samples idx (r # rs) =
     (case join_row S targetDict samples idx r of
        Inl e \<Rightarrow> Inl e
      | Inr x \<Rightarrow>
          (case join_rows S targetDict samples (Suc idx) rs of
             Inl e \<Rightarrow> Inl e
           | Inr xs \<Rightarrow> Inr (x # xs)))"

definition bySource_of ::
  "(jsval \<Rightarrow> string option) \<Rightarrow> entry list \<Rightarrow> (string \<Rightarrow> jsval) \<Rightarrow> mapping list \<Rightarrow> error + row list" where
  "bySource_of S targetDict samples results = join_rows S targetDict samples 0 results"

text \<open>
  \<open>Array.prototype.sort\<close> with a comparator: an element goes behind another one when
  the comparator is positive for the pair, and keeps its place relative to it otherwise
  (the sort is stable). Insertion from the right end gives that arrangement.
\<close>

fun sort_insert :: "('a \<Rightarrow> 'a \<Rightarrow> jsnum) \<Rightarrow> 'a \<Rightarrow> 'a list \<Rightarrow> 'a list" where
  "sort_insert cmp x [] = [x]"
| "sort_insert cmp x (y # ys) =
     (if js_lt (Fin 0) (cmp x y) then y # sort_insert cmp x ys else x # y # ys)"

definition js_sort :: "('a \<Rightarrow> 'a \<Rightarrow> jsnum) \<Rightarrow> 'a list \<Rightarrow> 'a list" where
  "js_sort cmp xs = foldr (sort_insert cmp) xs []"

definition score_cmp :: "row \<Rightarrow> row \<Rightarrow> jsnum" where
  "score_cmp a b = js_sub (or0 (MatchScore b)) (or0 (MatchScore a))"

definition byScore_of :: "row list \<Rightarrow> row list" where
  "byScore_of bySource = js_sort score_cmp bySource"

text \<open>
  The handler from the field list and the dictionary to the two tables: it fails when a
  call of the oracle client fails or the join throws.
\<close>

definition api_map ::
  "(string \<Rightarrow> jsval option) \<Rightarrow> (jsval \<Rightarrow> jsnum option) \<Rightarrow> (jsval \<Rightarrow> string option) \<Rightarrow>
   (nat \<Rightarrow> string list \<Rightarrow> error + jsval) \<Rightarrow> string list \<Rightarrow> entry list \<Rightarrow>
   (string \<Rightarrow> jsval) \<Rightarrow> error + (row list \<times> row list)" where
  "api_map P N S oracle sourceFields targetDict samples =
     (case map_batches P N oracle sourceFields 0 [] of
        Inl e \<Rightarrow> Inl e
      | Inr results \<Rightarrow>
          (case bySource_of S targetDict samples (backfill sourceFields results) of
             Inl e \<Rightarrow> Inl e
           | Inr bySource \<Rightarrow> Inr (bySource, byScore_of bySource)))"

section \<open>Flattening a schema (\<open>parseXsdPaths\<close>)\<close>

text \<open>
  The tree that the XML parser returns (attributes without prefix) is a value as well: a
  tag with attributes or child tags is an object, whose own properties are the attribute
  values, as strings, and the child tags; a tag that occurs several times under its parent
  is an array; a tag with text only is that text, or the number or boolean the parser
  reads from it, and an empty tag is the empty string. An attribute and a child tag of one
  name are one property. The prototype of every object of the tree is \<open>Object.prototype\<close>.
\<close>

text \<open>\<open>Array.isArray(n) ? n : [n]\<close>.\<close>

definition as_array :: "jsval \<Rightarrow> jsval list" where
  "as_array n = (case n of JArr xs \<Rightarrow> xs | _ \<Rightarrow> [n])"

text \<open>\<open>s.split(':').pop()\<close>: what follows the last colon.\<close>

definition local_part :: "string \<Rightarrow> string" where
  "local_part s = rev (takeWhile (\<lambda>c. c \<noteq> CHR '':'') (rev s))"

text \<open>\<open>childElements(node)\<close>.\<close>

definition childElements :: "jsval \<Rightarrow> jsval list" where
  "childElements node =
     (if \<not> truthy node then []
      else concat (map (\<lambda>tag.
             let n = get_prop node tag
             in if \<not> truthy n then []
                else concat (map (\<lambda>s.
                       let kids = (if truthy s then get_prop s ''xs:element'' else s)
                       in if truthy kids then as_array kids else []) (as_array n)))
           [''xs:sequence'', ''xs:choice'', ''xs:all'']))"

text \<open>
  The table \<open>complexTypes\<close> is a plain object: it has the properties that the loop over
  the complex types sets (\<open>own\<close>) and those it inherits from its prototype, which is
  \<open>Object.prototype\<close> (\<open>proto\<close> is \<open>None\<close>) until an assignment to the key \<open>__proto__\<close>
  makes the assigned node the prototype. A function of \<open>Object.prototype\<close>, and that
  object itself, has none of the properties that \<open>childElements\<close> reads; it is given as
  an object without properties.
\<close>

record object_table =
  own :: "(string \<times> jsval) list"
  proto :: "jsval option"

definition Object_prototype_names :: "string list" where
  "Object_prototype_names =
     [''constructor'', ''__defineGetter__'', ''__defineSetter__'', ''hasOwnProperty'',
      ''__lookupGetter__'', ''__lookupSetter__'', ''isPrototypeOf'', ''propertyIsEnumerable'',
      ''toString'', ''valueOf'', ''toLocaleString'']"

definition builtin :: jsval where
  "builtin = JObj []"

definition inherited :: "string \<Rightarrow> jsval" where
  "inherited k = (if k \<in> set Object_prototype_names then builtin else JUndefined)"

text \<open>\<open>complexTypes[k] = ct\<close> for a node \<open>ct\<close>, which is an object.\<close>

definition table_set :: "object_table \<Rightarrow> string \<Rightarrow> jsval \<Rightarrow> object_table" where
  "table_set t k ct =
     (if k = ''__proto__'' then t \<lparr> proto := Some ct \<rparr>
      else t \<lparr> own := (k, ct) # own t \<rparr>)"

text \<open>\<open>complexTypes[k]\<close>; of two own properties with one name the later one is first.\<close>

definition table_get :: "object_table \<Rightarrow> string \<Rightarrow> jsval" where
  "table_get t k =
     (if k = ''__proto__'' then (case proto t of None \<Rightarrow> builtin | Some p \<Rightarrow> p)
      else case map_of (own t) k of
             Some ct \<Rightarrow> ct
           | None \<Rightarrow>
               (case proto t of
                  Some (JObj kvs) \<Rightarrow> (case map_of kvs k of Some v \<Rightarrow> v | None \<Rightarrow> inherited k)
                | _ \<Rightarrow> inherited k))"

text \<open>
  The loop \<open>for (const ct of cts) if (ct.name) complexTypes[ct.name] = ct\<close>, from the
  table \<open>t\<close> on.
\<close>

fun complexTypes_of ::
  "(jsval \<Rightarrow> string option) \<Rightarrow> jsval list \<Rightarrow> object_table \<Rightarrow> error + object_table" where
  "complexTypes_of S [] t = Inr t"
| "complexTypes_of S (ct # cts) t =
     (if nullish ct then Inl TypeError
      else if truthy (get_prop ct ''name'')
      then (case String_of S (get_prop ct ''name'') of
              Inl e \<Rightarrow> Inl e
            | Inr k \<Rightarrow> complexTypes_of S cts (table_set t k ct))
      else complexTypes_of S cts t)"

text \<open>The variables of \<open>walk\<close>: \<open>elName\<close>, \<open>pathStr\<close>, \<open>tname\<close> (\<open>None\<close> for \<open>null\<close>) and \<open>ct\<close>.\<close>

definition elName_of :: "(jsval \<Rightarrow> string option) \<Rightarrow> jsval \<Rightarrow> error + jsval" where
  "elName_of S el =
     (if truthy (get_prop el ''name'') then Inr (get_prop el ''name'')
      else if truthy (get_prop el ''ref'')
      then (case String_of S (get_prop el ''ref'') of
              Inl e \<Rightarrow> Inl e
            | Inr s \<Rightarrow> Inr (JStr (local_part s)))
      else Inr (JStr ''(anon)''))"

definition pathStr_of :: "(jsval \<Rightarrow> string option) \<Rightarrow> jsval \<Rightarrow> jsval \<Rightarrow> error + jsval" where
  "pathStr_of S prefix elName =
     (if truthy prefix
      then (case String_of S prefix of
              Inl e \<Rightarrow> Inl e
            | Inr p \<Rightarrow>
                (case String_of S elName of
                   Inl e \<Rightarrow> Inl e
                 | Inr n \<Rightarrow> Inr (JStr (p @ ''/'' @ n))))
      else Inr elName)"

definition tname_of :: "(jsval \<Rightarrow> string option) \<Rightarrow> jsval \<Rightarrow> error + string option" where
  "tname_of S el =
     (if truthy (get_prop el ''type'')
      then (case String_of S (get_prop el ''type'') of
              Inl e \<Rightarrow> Inl e
            | Inr s \<Rightarrow> Inr (Some (local_part s)))
      else Inr None)"

text \<open>The three in the order of the source; reading \<open>el.name\<close> of \<open>null\<close> throws.\<close>

definition walk_vars ::
  "(jsval \<Rightarrow> string option) \<Rightarrow> jsval \<Rightarrow> jsval \<Rightarrow> error + (jsval \<times> jsval \<times> string option)" where
  "walk_vars S el prefix =
     (if nullish el then Inl TypeError
      else case elName_of S el of
             Inl e \<Rightarrow> Inl e
           | Inr elName \<Rightarrow>
               (case pathStr_of S prefix elName of
                  Inl e \<Rightarrow> Inl e
                | Inr pathStr \<Rightarrow>
                    (case tname_of S el of
                       Inl e \<Rightarrow> Inl e
                     | Inr tname \<Rightarrow> Inr (elName, pathStr, tname))))"

definition inline_type :: "jsval \<Rightarrow> jsval" where
  "inline_type el =
     (if truthy (get_prop el ''xs:complexType'') then get_prop el ''xs:complexType'' else JNull)"

definition ct_of :: "object_table \<Rightarrow> string option \<Rightarrow> jsval \<Rightarrow> jsval" where
  "ct_of complexTypes tname el =
     (case tname of
        None \<Rightarrow> inline_type el
      | Some t \<Rightarrow>
          if t \<noteq> [] \<and> truthy (table_get complexTypes t) then table_get complexTypes t
          else inline_type el)"

text \<open>\<open>x ?? '1'\<close>, and \<open>tname || (ct ? 'complexType' : 'simpleType')\<close>.\<close>

definition occurs_of :: "jsval \<Rightarrow> string \<Rightarrow> jsval" where
  "occurs_of el k = (if nullish (get_prop el k) then JStr ''1'' else get_prop el k)"

definition leaf_type :: "string option \<Rightarrow> jsval \<Rightarrow> string" where
  "leaf_type tname ct =
     (case tname of
        Some (c # cs) \<Rightarrow> c # cs
      | _ \<Rightarrow> if truthy ct then ''complexType'' else ''simpleType'')"

text \<open>The row that \<open>walk\<close> pushes for a leaf; \<open>String\<close> of the two bounds can throw.\<close>

definition leaf_row ::
  "(jsval \<Rightarrow> string option) \<Rightarrow> string \<Rightarrow> jsval \<Rightarrow> jsval \<Rightarrow> string option \<Rightarrow> jsval \<Rightarrow> jsval \<Rightarrow>
   error + entry" where
  "leaf_row S nm pathStr elName tname ct el =
     (case String_of S (occurs_of el ''minOccurs'') of
        Inl e \<Rightarrow> Inl e
      | Inr mino \<Rightarrow>
          (case String_of S (occurs_of el ''maxOccurs'') of
             Inl e \<Rightarrow> Inl e
           | Inr maxo \<Rightarrow>
               Inr \<lparr> schema = nm, path = pathStr, name = elName, type = leaf_type tname ct,
                     minOccurs = mino, maxOccurs = maxo \<rparr>))"

text \<open>
  The rows of a loop of calls, in order. The loop ends with the first call that throws
  or does not return.
\<close>

fun collect :: "(error + 'a list) option list \<Rightarrow> (error + 'a list) option" where
  "collect [] = Some (Inr [])"
| "collect (x # xs) =
     (case x of
        None \<Rightarrow> None
      | Some (Inl e) \<Rightarrow> Some (Inl e)
      | Some (Inr r) \<Rightarrow>
          (case collect xs of
             None \<Rightarrow> None
           | Some (Inl e) \<Rightarrow> Some (Inl e)
           | Some (Inr rs) \<Rightarrow> Some (Inr (r @ rs))))"

text \<open>
  \<open>walk(el, prefix)\<close>: the rows it pushes, in order, or the error it throws. The first
  argument bounds the depth of the recursion; \<open>None\<close> says that the bound is exceeded. A
  recursion that does not end exceeds every bound; the source then runs until the call
  stack is exhausted.
\<close>

fun walk ::
  "nat \<Rightarrow> (jsval \<Rightarrow> string option) \<Rightarrow> string \<Rightarrow> object_table \<Rightarrow> jsval \<Rightarrow> jsval \<Rightarrow>
   (error + entry list) option" where
  "walk 0 S nm complexTypes el prefix = None"
| "walk (Suc n) S nm complexTypes el prefix =
     (case walk_vars S el prefix of
        Inl e \<Rightarrow> Some (Inl e)
      | Inr (elName, pathStr, tname) \<Rightarrow>
          (let ct = ct_of complexTypes tname el;
               kids = childElements ct
           in if \<not> truthy ct \<or> kids = []
              then (case leaf_row S nm pathStr elName tname ct el of
                      Inl e \<Rightarrow> Some (Inl e)
                    | Inr r \<Rightarrow> Some (Inr [r]))
              else collect (map (\<lambda>kid. walk n S nm complexTypes kid pathStr) kids)))"

text \<open>
  The schema root: \<open>j['xs:schema'] || j.schema\<close> or else the first value of \<open>j\<close> that is
  an object with a truthy \<open>xs:element\<close> (the own properties are taken in the order of the
  list), \<open>undefined\<close> when there is none.
\<close>

definition values_of :: "jsval \<Rightarrow> jsval list" where
  "values_of j = (case j of JObj kvs \<Rightarrow> map snd kvs | JArr xs \<Rightarrow> xs | _ \<Rightarrow> [])"

definition is_object :: "jsval \<Rightarrow> bool" where
  "is_object v = (case v of JObj _ \<Rightarrow> True | JArr _ \<Rightarrow> True | JNull \<Rightarrow> True | _ \<Rightarrow> False)"

definition schema_of :: "jsval \<Rightarrow> jsval" where
  "schema_of j =
     (if truthy (get_prop j ''xs:schema'') then get_prop j ''xs:schema''
      else if truthy (get_prop j ''schema'') then get_prop j ''schema''
      else (case find (\<lambda>v. truthy v \<and> is_object v \<and> truthy (get_prop v ''xs:element''))
                   (values_of j) of
              Some v \<Rightarrow> v
            | None \<Rightarrow> JUndefined))"

definition tag_list :: "jsval \<Rightarrow> string \<Rightarrow> jsval list" where
  "tag_list sc k = (if truthy (get_prop sc k) then as_array (get_prop sc k) else [])"

text \<open>
  The filter that drops a row whose key \<open>r.schema + '|' + r.path\<close> has been seen; the
  concatenation throws for a path without primitive value.
\<close>

definition key_of :: "(jsval \<Rightarrow> string option) \<Rightarrow> entry \<Rightarrow> error + string" where
  "key_of S r =
     (case String_of S (path r) of
        Inl e \<Rightarrow> Inl e
      | Inr p \<Rightarrow> Inr (schema r @ ''|'' @ p))"

fun dedupe_from ::
  "(jsval \<Rightarrow> string option) \<Rightarrow> string set \<Rightarrow> entry list \<Rightarrow> error + entry list" where
  "dedupe_from S seen [] = Inr []"
| "dedupe_from S seen (r # rs) =
     (case key_of S r of
        Inl e \<Rightarrow> Inl e
      | Inr key \<Rightarrow>
          if key \<in> seen then dedupe_from S seen rs
          else (case dedupe_from S (insert key seen) rs of
                  Inl e \<Rightarrow> Inl e
                | Inr out \<Rightarrow> Inr (r # out)))"

definition dedupe :: "(jsval \<Rightarrow> string option) \<Rightarrow> entry list \<Rightarrow> error + entry list" where
  "dedupe S rows = dedupe_from S {} rows"

text \<open>
  \<open>parseXsdPaths\<close> on the parsed document \<open>j\<close>, with the bound on the depth of \<open>walk\<close>.
\<close>

definition parseXsdPaths ::
  "nat \<Rightarrow> (jsval \<Rightarrow> string option) \<Rightarrow> string \<Rightarrow> jsval \<Rightarrow> (error + entry list) option" where
  "parseXsdPaths n S nm j =
     (if nullish j then Some (Inl TypeError)
      else if \<not> truthy (schema_of j) then Some (Inr [])
      else case complexTypes_of S (tag_list (schema_of j) ''xs:complexType'')
                  \<lparr> own = [], proto = None \<rparr> of
             Inl e \<Rightarrow> Some (Inl e)
           | Inr complexTypes \<Rightarrow>
               (case collect (map (\<lambda>gel. walk n S nm complexTypes gel (JStr []))
                               (tag_list (schema_of j) ''xs:element'')) of
                  None \<Rightarrow> None
                | Some (Inl e) \<Rightarrow> Some (Inl e)
                | Some (Inr rows) \<Rightarrow> Some (dedupe S rows)))"

text \<open>
  The dictionary of the handler: the rows of all files, in the order of the files,
  filtered once more.
\<close>

definition targetDict_of :: "(jsval \<Rightarrow> string option) \<Rightarrow> entry list list \<Rightarrow> error + entry list" where
  "targetDict_of S dicts = dedupe S (concat dicts)"

section \<open>Notions used to state the properties\<close>

text \<open>The array elements that the client maps for a reply; none when the call fails.\<close>

definition reply_items :: "(string \<Rightarrow> jsval option) \<Rightarrow> error + jsval \<Rightarrow> jsval list" where
  "reply_items P reply =
     (case reply of
        Inl e \<Rightarrow> []
      | Inr text \<Rightarrow>
          (case parse_content P text of
             Inl e \<Rightarrow> []
           | Inr obj \<Rightarrow> (case mappings_of obj of Inr (JArr ms) \<Rightarrow> ms | _ \<Rightarrow> [])))"

text \<open>
  The shapes of a parsed reply that the client takes for the mapping list \<open>ms\<close>: an array;
  a value other than \<open>undefined\<close>, \<open>null\<close> and an array whose \<open>mappings\<close> is an array; or
  such a value whose \<open>mappings\<close> is missing or falsy, taken for the empty list.
\<close>

definition accepted_shape :: "jsval \<Rightarrow> jsval list \<Rightarrow> bool" where
  "accepted_shape obj ms =
     (obj = JArr ms
      \<or> (\<nexists>xs. obj = JArr xs) \<and> \<not> nullish obj \<and> get_prop obj ''mappings'' = JArr ms
      \<or> (\<nexists>xs. obj = JArr xs) \<and> \<not> nullish obj \<and> \<not> truthy (get_prop obj ''mappings'') \<and> ms = [])"

text \<open>The mapping that the client makes of the element \<open>m\<close> whose score converts to \<open>x\<close>.\<close>

definition item_row :: "jsval \<Rightarrow> jsnum \<Rightarrow> mapping" where
  "item_row m x =
     \<lparr> SourceField = or_empty (get_prop m ''source''),
       SuggestedTargetPath = or_empty (get_prop m ''target_path''),
       MatchScore = or0 x,
       Rationale = or_empty (get_prop m ''rationale'') \<rparr>"

text \<open>The key by which the comparator of \<open>byScore\<close> orders the rows.\<close>

definition sort_key_of :: "row \<Rightarrow> jsnum" where
  "sort_key_of r = or0 (MatchScore r)"

text \<open>Descending order of the keys: the first row's key is not below the second's.\<close>

definition desc :: "row \<Rightarrow> row \<Rightarrow> bool" where
  "desc a b = (\<not> js_lt (sort_key_of a) (sort_key_of b))"




section \<open>Example inputs\<close>

text \<open>
  Message contents and the values \<open>JSON.parse\<close> gives for them (and for \<open>{}\<close>);
  \<open>example_parse\<close> is \<open>JSON.parse\<close> on these texts.
\<close>

definition content_three :: string where
  "content_three =
     ''[{\"source\":\"Id\",\"target_path\":\"Invoice/Id\",\"score\":0.5,\"rationale\":\"same name\"},'' @
     ''{\"source\":\"Name\",\"target_path\":\"Invoice/Customer\",\"score\":0.9},'' @
     ''{\"source\":\"Date\",\"target_path\":\"Invoice/Issued\",\"score\":0.5}]''"

definition value_three :: jsval where
  "value_three =
     JArr [JObj [(''source'', JStr ''Id''), (''target_path'', JStr ''Invoice/Id''),
                 (''score'', JNum (Fin (5 / 10))), (''rationale'', JStr ''same name'')],
           JObj [(''source'', JStr ''Name''), (''target_path'', JStr ''Invoice/Customer''),
                 (''score'', JNum (Fin (9 / 10)))],
           JObj [(''source'', JStr ''Date''), (''target_path'', JStr ''Invoice/Issued''),
                 (''score'', JNum (Fin (5 / 10)))]]"

definition content_five :: string where
  "content_five = ''{\"mappings\":[{\"source\":\"Id\",\"target_path\":\"Invoice/Id\",\"score\":5}]}''"

definition value_five :: jsval where
  "value_five =
     JObj [(''mappings'',
            JArr [JObj [(''source'', JStr ''Id''), (''target_path'', JStr ''Invoice/Id''),
                        (''score'', JNum (Fin 5))]])]"

definition content_twice :: string where
  "content_twice = ''[{\"source\":\"Id\",\"score\":0.9},{\"source\":\"Id\",\"score\":0.8}]''"

definition value_twice :: jsval where
  "value_twice =
     JArr [JObj [(''source'', JStr ''Id''), (''score'', JNum (Fin (9 / 10)))],
           JObj [(''source'', JStr ''Id''), (''score'', JNum (Fin (8 / 10)))]]"

text \<open>A reply whose score has no primitive value, and one whose source has none.\<close>

definition content_score :: string where
  "content_score = ''[{\"source\":\"Id\",\"score\":{\"toString\":0}}]''"

definition value_score :: jsval where
  "value_score = JArr [JObj [(''source'', JStr ''Id''), (''score'', JObj [(''toString'', JNum (Fin 0))])]]"

definition content_source :: string where
  "content_source = ''[{\"source\":{\"toString\":0},\"target_path\":\"Invoice/Id\",\"score\":0.5}]''"

definition value_source :: jsval where
  "value_source =
     JArr [JObj [(''source'', JObj [(''toString'', JNum (Fin 0))]), (''target_path'', JStr ''Invoice/Id''),
                 (''score'', JNum (Fin (5 / 10)))]]"

definition example_parse :: "string \<Rightarrow> jsval option" where
  "example_parse s =
     (if s = ''{}'' then Some (JObj [])
      else if s = content_three then Some value_three
      else if s = content_five then Some value_five
      else if s = content_twice then Some value_twice
      else if s = content_score then Some value_score
      else if s = content_source then Some value_source
      else None)"

text \<open>
  \<open>Number\<close> and \<open>String\<close> on the values that the examples convert, which are objects
  and texts: an object with a property \<open>toString\<close> of its own, which is no function, has
  no primitive value; any other object has the text \<open>[object Object]\<close>, which is no
  numeral, as the texts of the examples are none.
\<close>

definition example_Number :: "jsval \<Rightarrow> jsnum option" where
  "example_Number v =
     (case v of
        JObj kvs \<Rightarrow> (if map_of kvs ''toString'' = None then Some NaN else None)
      | _ \<Rightarrow> Some NaN)"

definition example_String :: "jsval \<Rightarrow> string option" where
  "example_String v =
     (case v of
        JObj kvs \<Rightarrow> (if map_of kvs ''toString'' = None then Some ''[object Object]'' else None)
      | _ \<Rightarrow> Some [])"

definition example_dict :: "entry list" where
  "example_dict =
     [\<lparr> schema = ''invoice.xsd'', path = JStr ''Invoice/Id'', name = JStr ''Id'', type = ''string'',
         minOccurs = ''1'', maxOccurs = ''1'' \<rparr>,
      \<lparr> schema = ''invoice.xsd'', path = JStr ''Invoice/Total'', name = JStr ''Total'', type = ''decimal'',
         minOccurs = ''0'', maxOccurs = ''1'' \<rparr>]"

definition example_samples :: "string \<Rightarrow> jsval" where
  "example_samples c =
     (if c = ''Id'' then JArr [JStr ''17'', JStr ''18'']
      else if c = ''Amount'' then JArr [JStr ''12.50'']
      else if c = ''Name'' \<or> c = ''Date'' then JArr []
      else JUndefined)"

definition example_row ::
  "nat \<Rightarrow> string \<Rightarrow> string \<Rightarrow> real \<Rightarrow> string \<Rightarrow> string \<Rightarrow> string \<Rightarrow> string \<Rightarrow> string \<Rightarrow> row" where
  "example_row n f p x ra sch ty occ smp =
     \<lparr> SourceField = JStr f, SuggestedTargetPath = JStr p, MatchScore = Fin x, Rationale = JStr ra,
       SourceOrder = n, TargetSchema = sch, TargetType = ty, Occurs = occ, SampleValue = JStr smp \<rparr>"

text \<open>The two tables for the fields Amount, Id, Name, Date and the reply \<open>content_three\<close>.\<close>

definition bySource_three :: "row list" where
  "bySource_three =
     [example_row 1 ''Id'' ''Invoice/Id'' (5 / 10) ''same name'' ''invoice.xsd'' ''string'' ''1..1'' ''17'',
      example_row 2 ''Name'' ''Invoice/Customer'' (9 / 10) [] [] [] ''..'' [],
      example_row 3 ''Date'' ''Invoice/Issued'' (5 / 10) [] [] [] ''..'' [],
      example_row 4 ''Amount'' [] 0 [] [] [] ''..'' ''12.50'']"

definition byScore_three :: "row list" where
  "byScore_three =
     [example_row 2 ''Name'' ''Invoice/Customer'' (9 / 10) [] [] [] ''..'' [],
      example_row 1 ''Id'' ''Invoice/Id'' (5 / 10) ''same name'' ''invoice.xsd'' ''string'' ''1..1'' ''17'',
      example_row 3 ''Date'' ''Invoice/Issued'' (5 / 10) [] [] [] ''..'' [],
      example_row 4 ''Amount'' [] 0 [] [] [] ''..'' ''12.50'']"

text \<open>
  A parsed schema: the root element Invoice of the named type InvoiceType, which holds Id,
  Total, Buyer (of the named type PartyType, which holds Name) and Id once more.
\<close>

definition example_doc :: jsval where
  "example_doc =
     JObj [(''xs:schema'', JObj [
       (''xmlns:xs'', JStr ''http://www.w3.org/2001/XMLSchema''),
       (''xs:element'', JObj [(''name'', JStr ''Invoice''), (''type'', JStr ''InvoiceType'')]),
       (''xs:complexType'', JArr [
          JObj [(''name'', JStr ''InvoiceType''),
                (''xs:sequence'', JObj [(''xs:element'', JArr [
                   JObj [(''name'', JStr ''Id''), (''type'', JStr ''xs:string'')],
                   JObj [(''name'', JStr ''Total''), (''type'', JStr ''xs:decimal''), (''minOccurs'', JStr ''0'')],
                   JObj [(''name'', JStr ''Buyer''), (''type'', JStr ''PartyType'')],
                   JObj [(''name'', JStr ''Id''), (''type'', JStr ''xs:string'')]])])],
          JObj [(''name'', JStr ''PartyType''),
                (''xs:sequence'', JObj [(''xs:element'',
                   JObj [(''name'', JStr ''Name''), (''type'', JStr ''xs:string'')])])]])])]"

definition example_entry :: "string \<Rightarrow> string \<Rightarrow> string \<Rightarrow> string \<Rightarrow> string \<Rightarrow> entry" where
  "example_entry sch p n t lo =
     \<lparr> schema = sch, path = JStr p, name = JStr n, type = t, minOccurs = lo, maxOccurs = ''1'' \<rparr>"

text \<open>
  Two uploaded files: \<open>a|b\<close> declares the element \<open>c\<close>, and \<open>a\<close> declares the element
  \<open>b|c\<close>.
\<close>

definition bar_doc :: "string \<Rightarrow> jsval" where
  "bar_doc elem =
     JObj [(''xs:schema'', JObj [
       (''xmlns:xs'', JStr ''http://www.w3.org/2001/XMLSchema''),
       (''xs:element'', JObj [(''name'', JStr elem), (''type'', JStr ''xs:string'')])])]"

definition bar_entry :: "string \<Rightarrow> string \<Rightarrow> entry" where
  "bar_entry file elem =
     \<lparr> schema = file, path = JStr elem, name = JStr elem, type = ''string'',
       minOccurs = ''1'', maxOccurs = ''1'' \<rparr>"

text \<open>
  A schema with the root element Root of the type \<open>foo\<close> and one complex type, of the
  name \<open>__proto__\<close>, which holds a tag \<open>foo\<close> with the element Loop of the type \<open>foo\<close> in a
  sequence; and the element Loop.
\<close>

definition loop_el :: jsval where
  "loop_el = JObj [(''name'', JStr ''Loop''), (''type'', JStr ''foo'')]"

definition proto_type :: jsval where
  "proto_type =
     JObj [(''name'', JStr ''__proto__''),
           (''foo'', JObj [(''xs:sequence'', JObj [(''xs:element'', loop_el)])])]"

definition proto_doc :: jsval where
  "proto_doc =
     JObj [(''xs:schema'', JObj [
       (''xmlns:xs'', JStr ''http://www.w3.org/2001/XMLSchema''),
       (''xs:element'', JObj [(''name'', JStr ''Root''), (''type'', JStr ''foo'')]),
       (''xs:complexType'', proto_type)])]"





section \<open>Properties of the gradient\<close>

lemma clamp_cases:
  "clamp NaN = Fin 0" "clamp NInf = Fin 0" "clamp PInf = Fin 1"
  "clamp (Fin x) = Fin (max 0 (min 1 x))"
  by (auto simp: clamp_def)

lemma clamp_finite: "\<exists>x. clamp v = Fin x \<and> 0 \<le> x \<and> x \<le> 1"
  by (cases v) (auto simp: clamp_cases)

lemma clamp_idem: "clamp (clamp v) = clamp v"
  by (cases v) (auto simp: clamp_cases)

lemma hex_value_simps:
  "hex_value CHR ''F'' = Some 15" "hex_value CHR ''8'' = Some 8" "hex_value CHR ''6'' = Some 6"
  "hex_value CHR ''9'' = Some 9" "hex_value CHR ''B'' = Some 11" "hex_value CHR ''E'' = Some 14"
  "hex_value CHR ''4'' = Some 4" "hex_value CHR ''3'' = Some 3" "hex_value CHR ''7'' = Some 7"
  "hex_value CHR ''f'' = Some 15" "hex_value CHR ''b'' = Some 11" "hex_value CHR ''e'' = Some 14"
  by (simp_all add: hex_value_def hex_chars_def upt_conv_Cons)

lemma stops_parse:
  "hexToRgb ''#F8696B'' = Some (248, 105, 107)"
  "hexToRgb ''#FFEB84'' = Some (255, 235, 132)"
  "hexToRgb ''#63BE7B'' = Some (99, 190, 123)"
  by (simp_all add: hexToRgb_def parseInt16_def hex_value_simps)

lemma colorForScore_clamp: "colorForScore (clamp v) = colorForScore v"
  by (simp add: colorForScore_def clamp_idem)

lemmas color_eval =
  colorForScore_def clamp_cases stops_parse blend_def Math_round_def rgbToHex_def
  padStart2_def toString16_def hex_digits.simps hex_chars_def

lemma colorForScore_low: "colorForScore (Fin 0) = ''#f8696b''"
  by (simp add: color_eval)

lemma colorForScore_mid: "colorForScore (Fin (1 / 2)) = ''#ffeb84''"
  by (simp add: color_eval)

lemma colorForScore_high: "colorForScore (Fin 1) = ''#63be7b''"
  by (simp add: color_eval)

lemma colorForScore_PInf: "colorForScore PInf = ''#63be7b''"
  by (simp add: color_eval)

lemma stops_lower_case:
  "hexToRgb ''#f8696b'' = hexToRgb ''#F8696B''"
  "hexToRgb ''#ffeb84'' = hexToRgb ''#FFEB84''"
  "hexToRgb ''#63be7b'' = hexToRgb ''#63BE7B''"
  by (simp_all add: hexToRgb_def parseInt16_def hex_value_simps)

text \<open>
  C5 (as amended). \<open>colorForScore\<close> is a function of its argument alone and depends on it
  only through the clamped value, which lies in [0,1]: a finite input is clamped to
  [0,1], NaN and minus infinity are treated as 0, and plus infinity is treated as 1 (not
  as 0). At 0, 0.5 and 1 the result is the lower-case hexadecimal string of the low, mid
  and high stop, which denotes the same colour as \<open>#F8696B\<close>, \<open>#FFEB84\<close> and \<open>#63BE7B\<close>.
\<close>

theorem C5_colorForScore_stops:
  "colorForScore v = colorForScore (clamp v)
   \<and> (\<exists>c. clamp v = Fin c \<and> 0 \<le> c \<and> c \<le> 1)
   \<and> clamp (Fin x) = Fin (max 0 (min 1 x))
   \<and> clamp NaN = Fin 0 \<and> clamp NInf = Fin 0 \<and> clamp PInf = Fin 1
   \<and> colorForScore (Fin 0) = ''#f8696b''
   \<and> colorForScore (Fin (1 / 2)) = ''#ffeb84''
   \<and> colorForScore (Fin 1) = ''#63be7b''
   \<and> hexToRgb (colorForScore (Fin 0)) = hexToRgb ''#F8696B''
   \<and> hexToRgb (colorForScore (Fin (1 / 2))) = hexToRgb ''#FFEB84''
   \<and> hexToRgb (colorForScore (Fin 1)) = hexToRgb ''#63BE7B''"
  using clamp_finite [of v]
  by (simp add: colorForScore_clamp clamp_cases colorForScore_low colorForScore_mid
      colorForScore_high stops_lower_case)

theorem C5_colorForScore_stops_witness:
  "colorForScore (Fin 3) = colorForScore (clamp (Fin 3))
   \<and> clamp (Fin 3) = Fin 1
   \<and> clamp (Fin (- 2)) = Fin 0
   \<and> colorForScore (Fin 0) = ''#f8696b''
   \<and> colorForScore (Fin (1 / 2)) = ''#ffeb84''
   \<and> colorForScore (Fin 1) = ''#63be7b''"
  using C5_colorForScore_stops [of "Fin 3" "- 2"] C5_colorForScore_stops [of "Fin 3" 3]
  by simp

text \<open>
  C5 as stated fails at plus infinity: the input is not finite, and it is coloured as
  the score 1, not as the score 0.
\<close>

theorem C5_counterexample:
  "isFinite PInf = False \<and> colorForScore PInf = ''#63be7b'' \<and> colorForScore (Fin 0) = ''#f8696b''
   \<and> colorForScore PInf \<noteq> colorForScore (Fin 0)"
  by (simp add: colorForScore_PInf colorForScore_low)

section \<open>Properties of the score cell\<close>

lemma toUpperCase_low_color: "toUpperCase ''FCE4E4'' = ''FCE4E4''"
  by (simp add: toUpperCase_def to_upper_def)

text \<open>
  C6 (as amended). For a finite score both renderers choose the same colour: the flat
  \<open>#FCE4E4\<close> below 0.60 and \<open>colorForScore\<close> of the score from 0.60 on; the spreadsheet
  writes that colour without the \<open>#\<close> and in upper case. For a score that is not finite
  neither the override nor the gradient applies: the spreadsheet fills the cell with
  white and the document leaves it transparent.
\<close>

theorem C6_renderers_agree:
  "excel_value S pf (JNum v) = v \<and> msNum S pf (JNum v) = v
   \<and> (isFinite v \<longrightarrow>
        excel_bg v = html_bg v
        \<and> excel_fill S pf (JNum v) = toUpperCase (strip_hash (html_cell_bg S pf (JNum v)))
        \<and> (js_lt v (Fin (60 / 100)) \<longrightarrow> html_bg v = ''#FCE4E4'' \<and> excel_fill S pf (JNum v) = ''FCE4E4'')
        \<and> (\<not> js_lt v (Fin (60 / 100)) \<longrightarrow> html_bg v = colorForScore v))
   \<and> (\<not> isFinite v \<longrightarrow> excel_bg v = ''#FFFFFF'' \<and> html_bg v = ''transparent'')"
  by (simp add: excel_value_def msNum_def excel_bg_def html_bg_def excel_fill_def
      html_cell_bg_def toUpperCase_low_color)

theorem C6_renderers_agree_witness:
  "excel_bg (Fin (3 / 10)) = html_bg (Fin (3 / 10))
   \<and> html_bg (Fin (3 / 10)) = ''#FCE4E4''
   \<and> excel_fill (\<lambda>_. []) (\<lambda>_. NaN) (JNum (Fin (3 / 10))) = ''FCE4E4''
   \<and> excel_bg (Fin 1) = html_bg (Fin 1)
   \<and> html_bg (Fin 1) = ''#63be7b''
   \<and> excel_bg PInf = ''#FFFFFF'' \<and> html_bg PInf = ''transparent''"
  using C6_renderers_agree [of "\<lambda>_. []" "\<lambda>_. NaN" "Fin (3 / 10)"]
    C6_renderers_agree [of "\<lambda>_. []" "\<lambda>_. NaN" "Fin 1"]
    C6_renderers_agree [of "\<lambda>_. []" "\<lambda>_. NaN" PInf]
  by (simp add: colorForScore_high html_cell_bg_def msNum_def toUpperCase_low_color)

text \<open>
  C6 as stated fails at minus infinity: the score is below 0.60, yet neither renderer
  uses the low-confidence colour, and the two backgrounds differ.
\<close>

theorem C6_counterexample:
  "js_lt NInf (Fin (60 / 100))
   \<and> excel_bg NInf = ''#FFFFFF'' \<and> html_bg NInf = ''transparent''
   \<and> excel_bg NInf \<noteq> ''#FCE4E4'' \<and> html_bg NInf \<noteq> ''#FCE4E4''
   \<and> toUpperCase (strip_hash (html_bg NInf)) \<noteq> toUpperCase (strip_hash (excel_bg NInf))"
  by (simp add: excel_bg_def html_bg_def toUpperCase_def to_upper_def)


section \<open>Properties of the oracle client\<close>

lemma or0_not_NaN: "or0 n \<noteq> NaN"
  by (cases n) auto

lemma or0_id: "n \<noteq> NaN \<Longrightarrow> or0 n = n"
  by (cases n) auto

lemma Number_or0_Inr: "Number_or0 N v = Inr y \<longleftrightarrow> (\<exists>x. ToNumber N v = Inr x \<and> y = or0 x)"
  by (auto simp: Number_or0_def split: sum.splits)

lemma map_item_Inr:
  "map_item N m = Inr r \<longleftrightarrow>
   \<not> nullish m \<and> (\<exists>x. ToNumber N (get_prop m ''score'') = Inr x \<and> r = item_row m x)"
  by (auto simp: map_item_def Number_or0_def item_row_def split: sum.splits)

lemma map_item_score:
  "map_item N m = Inr r \<Longrightarrow> Number_or0 N (get_prop m ''score'') = Inr (MatchScore r)"
  by (auto simp: map_item_Inr Number_or0_Inr item_row_def)

lemma map_items_InrD:
  "map_items N ms = Inr rs \<Longrightarrow> list_all2 (\<lambda>m r. map_item N m = Inr r) ms rs"
  by (induction ms arbitrary: rs) (auto split: sum.splits)

lemma map_items_InrI:
  "list_all2 (\<lambda>m r. map_item N m = Inr r) ms rs \<Longrightarrow> map_items N ms = Inr rs"
  by (induction rule: list_all2_induct) simp_all

lemma map_items_Inr:
  "map_items N ms = Inr rs \<longleftrightarrow> list_all2 (\<lambda>m r. map_item N m = Inr r) ms rs"
  using map_items_InrD map_items_InrI by blast

lemma list_all2_right:
  "list_all2 Q xs ys \<Longrightarrow> y \<in> set ys \<Longrightarrow> \<exists>x\<in>set xs. Q x y"
  by (induction rule: list_all2_induct) auto

lemma mappings_of_Inr:
  "mappings_of obj = Inr (JArr ms) \<longleftrightarrow> accepted_shape obj ms"
  by (cases obj) (auto simp: mappings_of_def accepted_shape_def nullish_def get_prop_def)

lemma aoaiMapBatch_Inr:
  "aoaiMapBatch P N (Inr text) = Inr rows \<longleftrightarrow>
     (\<exists>obj ms. parse_content P text = Inr obj \<and> accepted_shape obj ms
        \<and> list_all2 (\<lambda>m r. map_item N m = Inr r) ms rows)"
proof
  assume a: "aoaiMapBatch P N (Inr text) = Inr rows"
  then obtain obj where o: "parse_content P text = Inr obj"
    by (auto simp: aoaiMapBatch_def split: sum.splits)
  with a obtain v where v: "mappings_of obj = Inr v" and m: "map_mappings N v = Inr rows"
    by (auto simp: aoaiMapBatch_def split: sum.splits)
  from m obtain ms where ms: "v = JArr ms" and i: "map_items N ms = Inr rows"
    by (cases v) (auto simp: map_mappings_def)
  from v ms have "accepted_shape obj ms" by (simp add: mappings_of_Inr)
  with o i show "\<exists>obj ms. parse_content P text = Inr obj \<and> accepted_shape obj ms
        \<and> list_all2 (\<lambda>m r. map_item N m = Inr r) ms rows"
    by (auto simp: map_items_Inr)
next
  assume "\<exists>obj ms. parse_content P text = Inr obj \<and> accepted_shape obj ms
        \<and> list_all2 (\<lambda>m r. map_item N m = Inr r) ms rows"
  then obtain obj ms where o: "parse_content P text = Inr obj" and s: "accepted_shape obj ms"
    and r: "list_all2 (\<lambda>m r. map_item N m = Inr r) ms rows" by blast
  from s have "mappings_of obj = Inr (JArr ms)" by (simp add: mappings_of_Inr)
  with o r show "aoaiMapBatch P N (Inr text) = Inr rows"
    by (simp add: aoaiMapBatch_def map_mappings_def map_items_Inr)
qed

lemma aoaiMapBatch_items:
  "aoaiMapBatch P N reply = Inr rows \<Longrightarrow>
   list_all2 (\<lambda>m r. map_item N m = Inr r) (reply_items P reply) rows"
  by (auto simp: aoaiMapBatch_def reply_items_def map_mappings_def map_items_Inr
      split: sum.splits jsval.splits)

lemma map_batches_from:
  "map_batches P N orc fs i res = Inr out \<Longrightarrow>
   \<exists>new. out = res @ new \<and>
     (\<forall>r\<in>set new. \<exists>j m. m \<in> set (reply_items P (orc j (slice j (j + 60) fs))) \<and> map_item N m = Inr r)"
proof (induction P N orc fs i res rule: map_batches.induct)
  case (1 P N orc fs i res)
  show ?case
  proof (cases "i < length fs")
    case False
    with "1.prems" show ?thesis by (simp add: map_batches.simps)
  next
    case True
    with "1.prems" obtain mapped where
      m: "aoaiMapBatch P N (orc i (slice i (i + 60) fs)) = Inr mapped"
      and rest: "map_batches P N orc fs (i + 60) (res @ mapped) = Inr out"
      by (subst (asm) map_batches.simps) (auto split: sum.splits)
    from "1.IH" [OF True m rest] obtain new where
      new: "out = (res @ mapped) @ new"
      "\<forall>r\<in>set new. \<exists>j m. m \<in> set (reply_items P (orc j (slice j (j + 60) fs))) \<and> map_item N m = Inr r"
      by blast
    from aoaiMapBatch_items [OF m] have
      "\<forall>r\<in>set mapped. \<exists>j m. m \<in> set (reply_items P (orc j (slice j (j + 60) fs))) \<and> map_item N m = Inr r"
      by (meson list_all2_right)
    with new show ?thesis
      by (intro exI [of _ "mapped @ new"]) auto
  qed
qed

section \<open>Properties of the join\<close>

lemma join_row_Inr:
  "join_row S d sm i r = Inr x \<longleftrightarrow>
   (\<exists>key. String_of S (SourceField r) = Inr key \<and>
      x = \<lparr> SourceField = SourceField r, SuggestedTargetPath = SuggestedTargetPath r,
            MatchScore = MatchScore r, Rationale = or_empty (Rationale r), SourceOrder = i + 1,
            TargetSchema = (case extraByPath d (SuggestedTargetPath r) of Some e \<Rightarrow> schema e | None \<Rightarrow> []),
            TargetType = (case extraByPath d (SuggestedTargetPath r) of Some e \<Rightarrow> type e | None \<Rightarrow> []),
            Occurs = (case extraByPath d (SuggestedTargetPath r) of Some e \<Rightarrow> minOccurs e | None \<Rightarrow> [])
                     @ ''..'' @
                     (case extraByPath d (SuggestedTargetPath r) of Some e \<Rightarrow> maxOccurs e | None \<Rightarrow> []),
            SampleValue = or_empty (first_of (sm key)) \<rparr>)"
  by (auto simp: join_row_def Let_def split: sum.splits)

lemma join_row_Inl:
  "join_row S d sm i r = Inl e \<longleftrightarrow> String_of S (SourceField r) = Inl e"
  by (auto simp: join_row_def Let_def split: sum.splits)

lemma join_row_fields:
  assumes "join_row S d sm i r = Inr x"
  shows "SourceField x = SourceField r" "SuggestedTargetPath x = SuggestedTargetPath r"
    "MatchScore x = MatchScore r" "SourceOrder x = i + 1"
  using assms by (auto simp: join_row_Inr)

lemma join_rows_Inr:
  "join_rows S d sm k rs = Inr xs \<longleftrightarrow>
   length xs = length rs \<and> (\<forall>i<length rs. join_row S d sm (k + i) (rs ! i) = Inr (xs ! i))"
proof (induction rs arbitrary: k xs)
  case Nil
  then show ?case by auto
next
  case (Cons r rs)
  show ?case
  proof (cases xs)
    case Nil
    then show ?thesis by (auto split: sum.splits)
  next
    case (Cons x xs')
    have "(\<forall>i<Suc (length rs). join_row S d sm (k + i) ((r # rs) ! i) = Inr ((x # xs') ! i)) \<longleftrightarrow>
        join_row S d sm k r = Inr x
        \<and> (\<forall>i<length rs. join_row S d sm (Suc k + i) (rs ! i) = Inr (xs' ! i))"
      by (auto simp: less_Suc_eq_0_disj)
    with Cons Cons.IH [of "Suc k" xs'] show ?thesis
      by (auto split: sum.splits)
  qed
qed

lemma bySource_of_Inr:
  "bySource_of S d sm rs = Inr xs \<longleftrightarrow>
   length xs = length rs \<and> (\<forall>i<length rs. join_row S d sm i (rs ! i) = Inr (xs ! i))"
  by (simp add: bySource_of_def join_rows_Inr)

lemma map_SourceField_bySource_of:
  assumes "bySource_of S d sm rs = Inr xs"
  shows "map SourceField xs = map SourceField rs"
  using assms by (intro nth_equalityI) (auto simp: bySource_of_Inr join_row_fields)

lemma in_bySource_of:
  assumes "bySource_of S d sm rs = Inr xs" and "x \<in> set xs"
  shows "\<exists>i<length rs. join_row S d sm i (rs ! i) = Inr x"
  using assms by (auto simp: bySource_of_Inr in_set_conv_nth)

lemma extraByPath_None:
  "extraByPath d k = None \<longleftrightarrow> (\<forall>e\<in>set d. \<not> same_key k (path e))"
  by (auto simp: extraByPath_def find_None_iff)

lemma join_row_unmatched:
  assumes "\<forall>e\<in>set d. \<not> same_key (SuggestedTargetPath r) (path e)"
    and "join_row S d sm i r = Inr x"
  shows "TargetSchema x = [] \<and> TargetType x = [] \<and> Occurs x = ''..''"
proof -
  from assms(1) have "extraByPath d (SuggestedTargetPath r) = None"
    by (simp add: extraByPath_None)
  with assms(2) show ?thesis by (auto simp: join_row_Inr)
qed

section \<open>Properties of the sort\<close>

lemma after_iff: "js_lt (Fin 0) (score_cmp x y) \<longleftrightarrow> js_lt (sort_key_of x) (sort_key_of y)"
  by (cases "MatchScore x"; cases "MatchScore y") (auto simp: score_cmp_def sort_key_of_def)

lemma sort_key_not_NaN: "sort_key_of r \<noteq> NaN"
  by (simp add: sort_key_of_def or0_not_NaN)

lemma js_lt_trans: "js_lt a b \<Longrightarrow> js_lt b c \<Longrightarrow> js_lt a c"
  by (cases a; cases b; cases c) auto

lemma js_lt_total: "a \<noteq> NaN \<Longrightarrow> b \<noteq> NaN \<Longrightarrow> js_lt a b \<or> a = b \<or> js_lt b a"
  by (cases a; cases b) auto

lemma js_lt_irrefl: "\<not> js_lt a a"
  by (cases a) auto

lemma not_lt_trans:
  "a \<noteq> NaN \<Longrightarrow> b \<noteq> NaN \<Longrightarrow> c \<noteq> NaN \<Longrightarrow> \<not> js_lt a b \<Longrightarrow> \<not> js_lt b c \<Longrightarrow> \<not> js_lt a c"
  by (cases a; cases b; cases c) auto

lemma not_lt_le: "a \<noteq> NaN \<Longrightarrow> b \<noteq> NaN \<Longrightarrow> \<not> js_lt a b \<Longrightarrow> js_le b a"
  by (cases a; cases b) auto

lemma mset_sort_insert: "mset (sort_insert cmp x ys) = add_mset x (mset ys)"
  by (induction ys) auto

lemma mset_js_sort: "mset (js_sort cmp xs) = mset xs"
  by (induction xs) (auto simp: js_sort_def mset_sort_insert)

lemma set_sort_insert: "set (sort_insert cmp x ys) = insert x (set ys)"
  by (induction ys) auto

lemma sorted_sort_insert:
  "sorted_wrt desc ys \<Longrightarrow> sorted_wrt desc (sort_insert score_cmp x ys)"
proof (induction ys)
  case Nil
  then show ?case by simp
next
  case (Cons y ys)
  show ?case
  proof (cases "js_lt (sort_key_of x) (sort_key_of y)")
    case True
    then have "desc y x"
      using js_lt_trans js_lt_irrefl by (auto simp: desc_def)
    with Cons True show ?thesis
      by (auto simp: after_iff set_sort_insert)
  next
    case False
    then have xy: "desc x y" by (simp add: desc_def)
    have "desc x z" if "z \<in> set ys" for z
    proof -
      from Cons.prems that have "desc y z" by simp
      with xy show ?thesis
        unfolding desc_def using not_lt_trans sort_key_not_NaN by blast
    qed
    with Cons.prems False xy show ?thesis
      by (auto simp: after_iff)
  qed
qed

lemma sorted_js_sort: "sorted_wrt desc (js_sort score_cmp xs)"
  by (induction xs) (auto simp: js_sort_def sorted_sort_insert)

lemma filter_sort_insert:
  "filter (\<lambda>r. MatchScore r = s) (sort_insert score_cmp x ys) =
   filter (\<lambda>r. MatchScore r = s) (x # ys)"
proof (induction ys)
  case Nil
  then show ?case by simp
next
  case (Cons y ys)
  have "MatchScore x \<noteq> MatchScore y" if "js_lt (sort_key_of x) (sort_key_of y)"
    using that js_lt_irrefl by (auto simp: sort_key_of_def)
  with Cons show ?case
    by (auto simp: after_iff)
qed

lemma filter_js_sort:
  "filter (\<lambda>r. MatchScore r = s) (js_sort score_cmp xs) = filter (\<lambda>r. MatchScore r = s) xs"
proof (induction xs)
  case Nil
  then show ?case by (simp add: js_sort_def)
next
  case (Cons x xs)
  have "js_sort score_cmp (x # xs) = sort_insert score_cmp x (js_sort score_cmp xs)"
    by (simp add: js_sort_def)
  with Cons show ?case
    by (simp add: filter_sort_insert)
qed


section \<open>Properties of the assembly\<close>

lemma api_map_Inr:
  "api_map P N S orc fs d sm = Inr (bs, sc) \<longleftrightarrow>
   (\<exists>results. map_batches P N orc fs 0 [] = Inr results
      \<and> bySource_of S d sm (backfill fs results) = Inr bs \<and> sc = byScore_of bs)"
  by (auto simp: api_map_def split: sum.splits)

lemma map_batches_results:
  "map_batches P N orc fs 0 [] = Inr results \<Longrightarrow> r \<in> set results \<Longrightarrow>
   \<exists>j m. m \<in> set (reply_items P (orc j (slice j (j + 60) fs))) \<and> map_item N m = Inr r"
  using map_batches_from [of P N orc fs 0 "[]" results] by auto

lemma backfill_cases:
  "r \<in> set (backfill fs results) \<Longrightarrow>
   r \<in> set results \<or>
   (\<exists>c\<in>set fs. JStr c \<notin> set (map SourceField results) \<and> SourceField r = JStr c
      \<and> SuggestedTargetPath r = JStr [] \<and> MatchScore r = Fin 0)"
  by (auto simp: backfill_def Let_def)

lemma map_SourceField_backfill:
  "map SourceField (backfill fs results) =
   map SourceField results @ map JStr (filter (\<lambda>c. JStr c \<notin> set (map SourceField results)) fs)"
  by (simp add: backfill_def Let_def comp_def)

lemma backfill_exact:
  "map SourceField results = map JStr fs \<Longrightarrow> backfill fs results = results"
  by (auto simp: backfill_def Let_def filter_empty_conv)

lemma bySource_row:
  "api_map P N S orc fs d sm = Inr (bs, sc) \<Longrightarrow> r \<in> set bs \<Longrightarrow>
   \<exists>results i x. map_batches P N orc fs 0 [] = Inr results \<and> i < length (backfill fs results)
     \<and> x = backfill fs results ! i \<and> join_row S d sm i x = Inr r"
  by (auto simp: api_map_Inr dest!: in_bySource_of)

lemma scores_not_NaN:
  assumes "api_map P N S orc fs d sm = Inr (bySource, byScore)" and "r \<in> set bySource"
  shows "MatchScore r \<noteq> NaN"
proof -
  from bySource_row [OF assms] obtain results i x where
    res: "map_batches P N orc fs 0 [] = Inr results" and i: "i < length (backfill fs results)"
    and x: "x = backfill fs results ! i" and r: "join_row S d sm i x = Inr r" by blast
  from i x have "x \<in> set (backfill fs results)" by simp
  then have "MatchScore x \<noteq> NaN"
    using backfill_cases [of x fs results] map_batches_results [OF res, of x]
    by (auto simp: map_item_Inr item_row_def or0_not_NaN)
  with r show ?thesis by (simp add: join_row_fields)
qed

section \<open>The example inputs evaluated\<close>

lemmas assemble_eval =
  api_map_def map_batches.simps aoaiMapBatch_def parse_content_def mappings_of_def
  map_mappings_def map_item_def Number_or0_def nullish_def get_prop_def or_empty_def
  ToNumber_def backfill_def bySource_of_def join_row_def extraByPath_def same_key_def
  String_of_def first_of_def byScore_of_def js_sort_def score_cmp_def slice_def Let_def

lemma content_neq:
  "content_three \<noteq> ''{}''" "content_five \<noteq> ''{}''" "content_twice \<noteq> ''{}''"
  "content_score \<noteq> ''{}''" "content_source \<noteq> ''{}''"
  "content_five \<noteq> content_three" "content_twice \<noteq> content_three"
  "content_score \<noteq> content_three" "content_source \<noteq> content_three"
  "content_twice \<noteq> content_five" "content_score \<noteq> content_five"
  "content_source \<noteq> content_five" "content_score \<noteq> content_twice"
  "content_source \<noteq> content_twice" "content_source \<noteq> content_score"
  by (simp_all add: content_three_def content_five_def content_twice_def content_score_def
      content_source_def)

lemma example_parse_simps:
  "example_parse ''{}'' = Some (JObj [])"
  "example_parse content_three = Some value_three"
  "example_parse content_five = Some value_five"
  "example_parse content_twice = Some value_twice"
  "example_parse content_score = Some value_score"
  "example_parse content_source = Some value_source"
  by (simp_all add: example_parse_def content_neq)

lemma example_parse_not_json: "example_parse ''not json'' = None"
  by (simp add: example_parse_def content_three_def content_five_def content_twice_def
      content_score_def content_source_def)

lemma api_map_three:
  "api_map example_parse example_Number example_String (\<lambda>i batch. Inr (JStr content_three))
     [''Amount'', ''Id'', ''Name'', ''Date''] example_dict example_samples
   = Inr (bySource_three, byScore_three)"
  by (simp add: assemble_eval example_parse_simps value_three_def example_dict_def
      example_samples_def bySource_three_def byScore_three_def example_row_def)

lemma api_map_five:
  "api_map example_parse example_Number example_String (\<lambda>i batch. Inr (JStr content_five))
     [''Id''] example_dict example_samples
   = Inr ([example_row 1 ''Id'' ''Invoice/Id'' 5 [] ''invoice.xsd'' ''string'' ''1..1'' ''17''],
          [example_row 1 ''Id'' ''Invoice/Id'' 5 [] ''invoice.xsd'' ''string'' ''1..1'' ''17''])"
  by (simp add: assemble_eval example_parse_simps value_five_def example_dict_def
      example_samples_def example_row_def)

lemma api_map_twice:
  "api_map example_parse example_Number example_String (\<lambda>i batch. Inr (JStr content_twice))
     [''Id''] example_dict example_samples
   = Inr ([example_row 1 ''Id'' [] (9 / 10) [] [] [] ''..'' ''17'',
           example_row 2 ''Id'' [] (8 / 10) [] [] [] ''..'' ''17''],
          [example_row 1 ''Id'' [] (9 / 10) [] [] [] ''..'' ''17'',
           example_row 2 ''Id'' [] (8 / 10) [] [] [] ''..'' ''17''])"
  by (simp add: assemble_eval example_parse_simps value_twice_def example_dict_def
      example_samples_def example_row_def)

lemma aoai_empty_object:
  "aoaiMapBatch example_parse example_Number (Inr (JStr ''{}'')) = Inr []"
  by (simp add: assemble_eval example_parse_simps)

lemma aoai_score_object:
  "aoaiMapBatch example_parse example_Number (Inr (JStr content_score)) = Inl TypeError"
  by (simp add: assemble_eval example_parse_simps value_score_def example_Number_def)

lemma reply_items_three:
  "reply_items example_parse (Inr (JStr content_three)) =
     [JObj [(''source'', JStr ''Id''), (''target_path'', JStr ''Invoice/Id''),
            (''score'', JNum (Fin (5 / 10))), (''rationale'', JStr ''same name'')],
      JObj [(''source'', JStr ''Name''), (''target_path'', JStr ''Invoice/Customer''),
            (''score'', JNum (Fin (9 / 10)))],
      JObj [(''source'', JStr ''Date''), (''target_path'', JStr ''Invoice/Issued''),
            (''score'', JNum (Fin (5 / 10)))]]"
  by (simp add: reply_items_def parse_content_def mappings_of_def example_parse_simps
      value_three_def)

lemma api_map_in_order:
  "api_map example_parse example_Number example_String (\<lambda>i batch. Inr (JStr content_three))
     [''Id'', ''Name'', ''Date''] example_dict example_samples
   = Inr (take 3 bySource_three, take 3 byScore_three)"
  by (simp add: assemble_eval example_parse_simps value_three_def example_dict_def
      example_samples_def bySource_three_def byScore_three_def example_row_def)

lemma map_batches_in_order:
  "map_batches example_parse example_Number (\<lambda>i batch. Inr (JStr content_three))
     [''Id'', ''Name'', ''Date''] 0 [] = Inr results \<Longrightarrow>
   map SourceField results = map JStr [''Id'', ''Name'', ''Date'']"
  by (auto simp: assemble_eval example_parse_simps value_three_def)

lemma api_map_source_object:
  "api_map example_parse example_Number example_String (\<lambda>i batch. Inr (JStr content_source))
     [''Id''] example_dict example_samples = Inl TypeError"
  by (simp add: assemble_eval example_parse_simps value_source_def example_String_def)

section \<open>The claims about the assembly\<close>

text \<open>
  C1 (as amended). For every oracle response, every row of the assembled \<open>bySource\<close> list
  has a score that is a number other than NaN: it is 0 (a backfilled row) or the oracle's
  score coerced with \<open>Number\<close>, where a missing or non-numeric score, which coerces to
  NaN, becomes 0 and any other score is kept as it is, without clamping. So the score of
  a row is in [0,1] whenever every score the oracle returns is missing or a number in
  [0,1].
\<close>

theorem C1_scores:
  assumes "api_map P N S orc fs d sm = Inr (bySource, byScore)" and "r \<in> set bySource"
  shows "MatchScore r \<noteq> NaN
    \<and> (MatchScore r = Fin 0
       \<or> (\<exists>j m. m \<in> set (reply_items P (orc j (slice j (j + 60) fs)))
             \<and> Number_or0 N (get_prop m ''score'') = Inr (MatchScore r)))
    \<and> Number_or0 N JUndefined = Inr (Fin 0)
    \<and> (ToNumber N v = Inr NaN \<longrightarrow> Number_or0 N v = Inr (Fin 0))
    \<and> (ToNumber N v = Inr n \<longrightarrow> Number_or0 N v = Inr (or0 n))
    \<and> Number_or0 N (JNum (Fin x)) = Inr (Fin x)
    \<and> ((\<forall>j m. m \<in> set (reply_items P (orc j (slice j (j + 60) fs))) \<longrightarrow>
           get_prop m ''score'' = JUndefined
           \<or> (\<exists>y. get_prop m ''score'' = JNum (Fin y) \<and> 0 \<le> y \<and> y \<le> 1))
        \<longrightarrow> (\<exists>y. MatchScore r = Fin y \<and> 0 \<le> y \<and> y \<le> 1))"
proof -
  from bySource_row [OF assms] obtain results i q where
    res: "map_batches P N orc fs 0 [] = Inr results" and i: "i < length (backfill fs results)"
    and q: "q = backfill fs results ! i" and r: "join_row S d sm i q = Inr r" by blast
  from i q have "q \<in> set (backfill fs results)" by simp
  then consider (zero) "MatchScore q = Fin 0"
    | (item) j m where "m \<in> set (reply_items P (orc j (slice j (j + 60) fs)))" "map_item N m = Inr q"
    using backfill_cases [of q fs results] map_batches_results [OF res, of q] by blast
  then have main: "MatchScore r = Fin 0
       \<or> (\<exists>j m. m \<in> set (reply_items P (orc j (slice j (j + 60) fs)))
             \<and> Number_or0 N (get_prop m ''score'') = Inr (MatchScore r))"
  proof cases
    case zero
    with r show ?thesis by (simp add: join_row_fields)
  next
    case item
    from item(2) have "Number_or0 N (get_prop m ''score'') = Inr (MatchScore q)"
      by (rule map_item_score)
    with r item(1) show ?thesis by (auto simp: join_row_fields)
  qed
  have nn: "MatchScore r \<noteq> NaN"
    using assms by (rule scores_not_NaN)
  have range: "\<exists>y. MatchScore r = Fin y \<and> 0 \<le> y \<and> y \<le> 1"
    if h: "\<forall>j m. m \<in> set (reply_items P (orc j (slice j (j + 60) fs))) \<longrightarrow>
           get_prop m ''score'' = JUndefined
           \<or> (\<exists>y. get_prop m ''score'' = JNum (Fin y) \<and> 0 \<le> y \<and> y \<le> 1)"
  proof -
    from main show ?thesis
    proof
      assume "MatchScore r = Fin 0"
      then show ?thesis by simp
    next
      assume "\<exists>j m. m \<in> set (reply_items P (orc j (slice j (j + 60) fs)))
             \<and> Number_or0 N (get_prop m ''score'') = Inr (MatchScore r)"
      then obtain j m where m: "m \<in> set (reply_items P (orc j (slice j (j + 60) fs)))"
        and s: "Number_or0 N (get_prop m ''score'') = Inr (MatchScore r)" by blast
      from h m have "get_prop m ''score'' = JUndefined
           \<or> (\<exists>y. get_prop m ''score'' = JNum (Fin y) \<and> 0 \<le> y \<and> y \<le> 1)" by blast
      then show ?thesis
      proof
        assume "get_prop m ''score'' = JUndefined"
        with s have "MatchScore r = Fin 0" by (simp add: Number_or0_def ToNumber_def)
        then show ?thesis by simp
      next
        assume "\<exists>y. get_prop m ''score'' = JNum (Fin y) \<and> 0 \<le> y \<and> y \<le> 1"
        then obtain y where y: "get_prop m ''score'' = JNum (Fin y)" "0 \<le> y" "y \<le> 1" by blast
        with s have "MatchScore r = Fin y"
          by (cases "y = 0") (auto simp: Number_or0_def ToNumber_def)
        with y show ?thesis by simp
      qed
    qed
  qed
  have "Number_or0 N JUndefined = Inr (Fin 0)" "Number_or0 N (JNum (Fin x)) = Inr (Fin x)"
    "ToNumber N v = Inr NaN \<longrightarrow> Number_or0 N v = Inr (Fin 0)"
    "ToNumber N v = Inr n \<longrightarrow> Number_or0 N v = Inr (or0 n)"
    by (simp_all add: Number_or0_def ToNumber_def)
  with main nn range show ?thesis by simp
qed

theorem C1_scores_witness:
  "api_map example_parse example_Number example_String (\<lambda>i batch. Inr (JStr content_three))
     [''Amount'', ''Id'', ''Name'', ''Date''] example_dict example_samples = Inr (bySource_three, byScore_three)
   \<and> bySource_three ! 1 \<in> set bySource_three
   \<and> MatchScore (bySource_three ! 1) \<noteq> NaN
   \<and> Number_or0 example_Number (JStr ''high'') = Inr (Fin 0)
   \<and> Number_or0 example_Number (JNum (Fin (9 / 10))) = Inr (Fin (9 / 10))
   \<and> (\<exists>y. MatchScore (bySource_three ! 1) = Fin y \<and> 0 \<le> y \<and> y \<le> 1)"
proof -
  have e: "api_map example_parse example_Number example_String (\<lambda>i batch. Inr (JStr content_three))
     [''Amount'', ''Id'', ''Name'', ''Date''] example_dict example_samples = Inr (bySource_three, byScore_three)"
    by (rule api_map_three)
  have m: "bySource_three ! 1 \<in> set bySource_three"
    by (simp add: bySource_three_def)
  have n: "ToNumber example_Number (JStr ''high'') = Inr NaN"
    by (simp add: ToNumber_def example_Number_def)
  have h: "\<forall>j m. m \<in> set (reply_items example_parse
               ((\<lambda>i batch. Inr (JStr content_three)) j
                  (slice j (j + 60) [''Amount'', ''Id'', ''Name'', ''Date''])))
           \<longrightarrow> get_prop m ''score'' = JUndefined
               \<or> (\<exists>y. get_prop m ''score'' = JNum (Fin y) \<and> 0 \<le> y \<and> y \<le> 1)"
    by (auto simp: reply_items_three get_prop_def)
      (rule exI [of _ "1 / 2"], simp, rule exI [of _ "9 / 10"], simp, rule exI [of _ "1 / 2"], simp)
  from C1_scores [OF e m, of "JStr ''high''" NaN "9 / 10"] n h e m show ?thesis
    by blast
qed

text \<open>
  C1 as stated fails for the reply \<open>content_five\<close>: the oracle's score 5 is kept, and
  the row's score is outside [0,1].
\<close>

theorem C1_counterexample:
  "api_map example_parse example_Number example_String (\<lambda>i batch. Inr (JStr content_five))
     [''Id''] example_dict example_samples
   = Inr ([example_row 1 ''Id'' ''Invoice/Id'' 5 [] ''invoice.xsd'' ''string'' ''1..1'' ''17''],
          [example_row 1 ''Id'' ''Invoice/Id'' 5 [] ''invoice.xsd'' ''string'' ''1..1'' ''17''])
   \<and> MatchScore (example_row 1 ''Id'' ''Invoice/Id'' 5 [] ''invoice.xsd'' ''string'' ''1..1'' ''17'') = Fin 5
   \<and> \<not> js_le (Fin 5) (Fin 1)"
  by (simp add: api_map_five) (simp add: example_row_def)

text \<open>
  C2 (as amended). For every field list and every set of oracle results, \<open>bySource\<close> has
  one row for each oracle result, in the order in which the oracle returned them, followed
  by one row for each field of the list that the oracle results do not name, in field-list
  order: every source field has a row, and
  \<open>|bySource| = |oracle results| + |fields absent from them|\<close>. A field absent from the
  oracle results appears with score 0 and empty path. The \<open>SourceOrder\<close> of a row is its
  1-based position in \<open>bySource\<close>. When the oracle results name exactly the fields of the
  list, once each and in the order of the list, \<open>|bySource|\<close> is the length of the field
  list, the rows are in field-list order, and \<open>SourceOrder\<close> is the 1-based position of
  the field in the field list.
\<close>

theorem C2_rows:
  assumes "api_map P N S orc fs d sm = Inr (bySource, byScore)"
  shows "\<exists>results. map_batches P N orc fs 0 [] = Inr results
    \<and> map SourceField bySource =
        map SourceField results @ map JStr (filter (\<lambda>c. JStr c \<notin> set (map SourceField results)) fs)
    \<and> length bySource =
        length results + length (filter (\<lambda>c. JStr c \<notin> set (map SourceField results)) fs)
    \<and> (\<forall>c\<in>set fs. \<exists>r\<in>set bySource. SourceField r = JStr c)
    \<and> (\<forall>c\<in>set fs. JStr c \<notin> set (map SourceField results) \<longrightarrow>
          (\<forall>r\<in>set bySource. SourceField r = JStr c \<longrightarrow>
             MatchScore r = Fin 0 \<and> SuggestedTargetPath r = JStr []))
    \<and> (\<forall>i<length bySource. SourceOrder (bySource ! i) = i + 1)
    \<and> (map SourceField results = map JStr fs \<longrightarrow>
          length bySource = length fs \<and> map SourceField bySource = map JStr fs
          \<and> (\<forall>i<length fs. SourceField (bySource ! i) = JStr (fs ! i)
                \<and> SourceOrder (bySource ! i) = i + 1))"
proof -
  from assms obtain results where
    res: "map_batches P N orc fs 0 [] = Inr results"
    and bs: "bySource_of S d sm (backfill fs results) = Inr bySource"
    by (auto simp: api_map_Inr)
  let ?absent = "filter (\<lambda>c. JStr c \<notin> set (map SourceField results)) fs"
  have names: "map SourceField bySource = map SourceField results @ map JStr ?absent"
    by (simp add: map_SourceField_bySource_of [OF bs] map_SourceField_backfill)
  then have len: "length bySource = length results + length ?absent"
    by (metis length_append length_map)
  have every: "\<exists>r\<in>set bySource. SourceField r = JStr c" if "c \<in> set fs" for c
  proof -
    have "JStr c \<in> set (map SourceField results @ map JStr ?absent)"
      using that by auto
    with names have "JStr c \<in> set (map SourceField bySource)" by simp
    then show ?thesis by auto
  qed
  have absent: "MatchScore r = Fin 0 \<and> SuggestedTargetPath r = JStr []"
    if "JStr c \<notin> set (map SourceField results)" "r \<in> set bySource" "SourceField r = JStr c" for c r
  proof -
    from in_bySource_of [OF bs that(2)] obtain i where i: "i < length (backfill fs results)"
      and r: "join_row S d sm i (backfill fs results ! i) = Inr r"
      by blast
    let ?x = "backfill fs results ! i"
    from i have "?x \<in> set (backfill fs results)" by simp
    moreover from r that(3) have "SourceField ?x = JStr c" by (simp add: join_row_fields)
    ultimately have "SuggestedTargetPath ?x = JStr [] \<and> MatchScore ?x = Fin 0"
      using backfill_cases [of ?x fs results] that(1) by force
    with r show ?thesis by (simp add: join_row_fields)
  qed
  have order: "SourceOrder (bySource ! i) = i + 1" if "i < length bySource" for i
  proof -
    from bs that have "join_row S d sm i (backfill fs results ! i) = Inr (bySource ! i)"
      by (simp add: bySource_of_Inr)
    then show ?thesis by (rule join_row_fields)
  qed
  have exact: "length bySource = length fs \<and> map SourceField bySource = map JStr fs
          \<and> (\<forall>i<length fs. SourceField (bySource ! i) = JStr (fs ! i)
                \<and> SourceOrder (bySource ! i) = i + 1)"
    if e: "map SourceField results = map JStr fs"
  proof -
    from e have m: "map SourceField bySource = map JStr fs"
      using map_SourceField_bySource_of [OF bs] by (simp add: backfill_exact)
    then have l: "length bySource = length fs" by (metis length_map)
    have "SourceField (bySource ! i) = JStr (fs ! i)" if "i < length fs" for i
      using that m l by (metis nth_map)
    with m l order show ?thesis by simp
  qed
  have every': "\<forall>c\<in>set fs. \<exists>r\<in>set bySource. SourceField r = JStr c"
    using every by blast
  have absent': "\<forall>c\<in>set fs. JStr c \<notin> set (map SourceField results) \<longrightarrow>
          (\<forall>r\<in>set bySource. SourceField r = JStr c \<longrightarrow>
             MatchScore r = Fin 0 \<and> SuggestedTargetPath r = JStr [])"
    using absent by blast
  have order': "\<forall>i<length bySource. SourceOrder (bySource ! i) = i + 1"
    using order by blast
  have exact': "map SourceField results = map JStr fs \<longrightarrow>
          length bySource = length fs \<and> map SourceField bySource = map JStr fs
          \<and> (\<forall>i<length fs. SourceField (bySource ! i) = JStr (fs ! i)
                \<and> SourceOrder (bySource ! i) = i + 1)"
    using exact by blast
  show ?thesis
    by (rule exI [of _ results]) (intro conjI res names len every' absent' order' exact')
qed

theorem C2_rows_witness:
  "api_map example_parse example_Number example_String (\<lambda>i batch. Inr (JStr content_three))
     [''Amount'', ''Id'', ''Name'', ''Date''] example_dict example_samples = Inr (bySource_three, byScore_three)
   \<and> map SourceField bySource_three = map JStr [''Id'', ''Name'', ''Date'', ''Amount'']
   \<and> length bySource_three = 3 + 1
   \<and> SourceOrder (bySource_three ! 3) = 3 + 1
   \<and> MatchScore (bySource_three ! 3) = Fin 0 \<and> SuggestedTargetPath (bySource_three ! 3) = JStr []
   \<and> api_map example_parse example_Number example_String (\<lambda>i batch. Inr (JStr content_three))
        [''Id'', ''Name'', ''Date''] example_dict example_samples
      = Inr (take 3 bySource_three, take 3 byScore_three)
   \<and> length (take 3 bySource_three) = length [''Id'', ''Name'', ''Date'']
   \<and> map SourceField (take 3 bySource_three) = map JStr [''Id'', ''Name'', ''Date'']
   \<and> SourceOrder (take 3 bySource_three ! 2) = 2 + 1"
proof -
  have e: "api_map example_parse example_Number example_String (\<lambda>i batch. Inr (JStr content_three))
     [''Amount'', ''Id'', ''Name'', ''Date''] example_dict example_samples = Inr (bySource_three, byScore_three)"
    by (rule api_map_three)
  have a: "map SourceField bySource_three = map JStr [''Id'', ''Name'', ''Date'', ''Amount'']
    \<and> length bySource_three = 3 + 1 \<and> SourceOrder (bySource_three ! 3) = 3 + 1
    \<and> MatchScore (bySource_three ! 3) = Fin 0 \<and> SuggestedTargetPath (bySource_three ! 3) = JStr []"
    using C2_rows [OF e] by (simp add: bySource_three_def example_row_def)
  have o: "api_map example_parse example_Number example_String (\<lambda>i batch. Inr (JStr content_three))
        [''Id'', ''Name'', ''Date''] example_dict example_samples
      = Inr (take 3 bySource_three, take 3 byScore_three)"
    by (rule api_map_in_order)
  have b: "length (take 3 bySource_three) = length [''Id'', ''Name'', ''Date'']
    \<and> map SourceField (take 3 bySource_three) = map JStr [''Id'', ''Name'', ''Date'']
    \<and> SourceOrder (take 3 bySource_three ! 2) = 2 + 1"
    using C2_rows [OF o] map_batches_in_order by fastforce
  from e a o b show ?thesis by blast
qed

text \<open>
  C2 as stated fails. For the fields Amount, Id, Name, Date and the reply
  \<open>content_three\<close> the rows are not in field-list order, and the row of Amount, the first
  field, has \<open>SourceOrder\<close> 4. For the single field Id and the reply \<open>content_twice\<close>
  there are two rows.
\<close>

theorem C2_counterexample:
  "api_map example_parse example_Number example_String (\<lambda>i batch. Inr (JStr content_three))
     [''Amount'', ''Id'', ''Name'', ''Date''] example_dict example_samples = Inr (bySource_three, byScore_three)
   \<and> map SourceField bySource_three \<noteq> map JStr [''Amount'', ''Id'', ''Name'', ''Date'']
   \<and> SourceField (bySource_three ! 3) = JStr ([''Amount'', ''Id'', ''Name'', ''Date''] ! 0)
   \<and> SourceOrder (bySource_three ! 3) = 4
   \<and> (case api_map example_parse example_Number example_String (\<lambda>i batch. Inr (JStr content_twice))
              [''Id''] example_dict example_samples
       of Inl e \<Rightarrow> 0 | Inr (bySource, byScore) \<Rightarrow> length bySource) = 2
   \<and> length [''Id''] = 1"
  by (simp add: api_map_three api_map_twice) (simp add: bySource_three_def example_row_def)

text \<open>
  C3. For every assembled \<open>bySource\<close> list, \<open>byScore\<close> is a permutation of \<open>bySource\<close>,
  the scores in \<open>byScore\<close> are descending (for \<open>i < j\<close> the score at \<open>i\<close> is at least the
  score at \<open>j\<close>), and rows with equal scores are in the same relative order as in
  \<open>bySource\<close>: for every score, the rows of that score form the same sequence in both
  tables.
\<close>

theorem C3_byScore:
  assumes "api_map P N S orc fs d sm = Inr (bySource, byScore)"
  shows "mset byScore = mset bySource
    \<and> (\<forall>i j. i < j \<and> j < length byScore \<longrightarrow>
          js_le (MatchScore (byScore ! j)) (MatchScore (byScore ! i)))
    \<and> (\<forall>s. filter (\<lambda>r. MatchScore r = s) byScore = filter (\<lambda>r. MatchScore r = s) bySource)"
proof -
  from assms have sc: "byScore = js_sort score_cmp bySource"
    by (auto simp: api_map_Inr byScore_of_def)
  have perm: "mset byScore = mset bySource"
    by (simp add: sc mset_js_sort)
  have key: "sort_key_of r = MatchScore r" if "r \<in> set byScore" for r
  proof -
    from that perm have "r \<in> set bySource" by (metis set_mset_mset)
    with assms have "MatchScore r \<noteq> NaN" by (rule scores_not_NaN)
    then show ?thesis by (simp add: sort_key_of_def or0_id)
  qed
  have "js_le (MatchScore (byScore ! j)) (MatchScore (byScore ! i))"
    if "i < j" "j < length byScore" for i j
  proof -
    have "sorted_wrt desc byScore" by (simp add: sc sorted_js_sort)
    with that have "desc (byScore ! i) (byScore ! j)"
      by (simp add: sorted_wrt_iff_nth_less)
    moreover from that have "byScore ! i \<in> set byScore" "byScore ! j \<in> set byScore" by simp_all
    ultimately have "\<not> js_lt (MatchScore (byScore ! i)) (MatchScore (byScore ! j))"
      by (simp add: desc_def key)
    moreover have "MatchScore (byScore ! i) \<noteq> NaN" "MatchScore (byScore ! j) \<noteq> NaN"
      using key that sort_key_not_NaN by (metis nth_mem order.strict_trans)+
    ultimately show ?thesis by (simp add: not_lt_le)
  qed
  moreover have "filter (\<lambda>r. MatchScore r = s) byScore = filter (\<lambda>r. MatchScore r = s) bySource" for s
    by (simp add: sc filter_js_sort)
  ultimately show ?thesis using perm by blast
qed

theorem C3_byScore_witness:
  "api_map example_parse example_Number example_String (\<lambda>i batch. Inr (JStr content_three))
     [''Amount'', ''Id'', ''Name'', ''Date''] example_dict example_samples = Inr (bySource_three, byScore_three)
   \<and> mset byScore_three = mset bySource_three
   \<and> js_le (MatchScore (byScore_three ! 2)) (MatchScore (byScore_three ! 0))
   \<and> filter (\<lambda>r. MatchScore r = Fin (5 / 10)) byScore_three = [bySource_three ! 0, bySource_three ! 2]
   \<and> filter (\<lambda>r. MatchScore r = Fin (5 / 10)) bySource_three = [bySource_three ! 0, bySource_three ! 2]"
proof -
  have e: "api_map example_parse example_Number example_String (\<lambda>i batch. Inr (JStr content_three))
     [''Amount'', ''Id'', ''Name'', ''Date''] example_dict example_samples = Inr (bySource_three, byScore_three)"
    by (rule api_map_three)
  have l: "(0::nat) < 2 \<and> 2 < length byScore_three"
    by (simp add: byScore_three_def)
  have f: "filter (\<lambda>r. MatchScore r = Fin (5 / 10)) bySource_three = [bySource_three ! 0, bySource_three ! 2]"
    by (simp add: bySource_three_def example_row_def)
  note c = C3_byScore [OF e]
  from c have p: "mset byScore_three = mset bySource_three" by blast
  from c l have o: "js_le (MatchScore (byScore_three ! 2)) (MatchScore (byScore_three ! 0))"
    by blast
  from c have "filter (\<lambda>r. MatchScore r = Fin (5 / 10)) byScore_three =
      filter (\<lambda>r. MatchScore r = Fin (5 / 10)) bySource_three"
    by blast
  with f have "filter (\<lambda>r. MatchScore r = Fin (5 / 10)) byScore_three =
      [bySource_three ! 0, bySource_three ! 2]"
    by simp
  with e p o f show ?thesis by blast
qed

text \<open>
  C9 (as amended). For every assembled result row whose \<open>suggestedTargetPath\<close> has no
  exact-match entry in the target dictionary (no entry whose path is the same \<open>Map\<close> key;
  for a string path: no entry with that string as path), the joined row's schema and type
  are empty and its occurs field is the string \<open>..\<close> (the separator between an empty
  minimum and an empty maximum). The missing entry raises no error: whether the join of a
  row throws does not depend on its path or on the dictionary, and the join of a row whose
  source field is a string does not throw.
\<close>

theorem C9_unmatched:
  "(extraByPath d (SuggestedTargetPath r) = None \<longleftrightarrow>
      (\<forall>t\<in>set d. \<not> same_key (SuggestedTargetPath r) (path t)))
   \<and> (same_key (JStr s) v \<longleftrightarrow> v = JStr s)
   \<and> ((\<forall>t\<in>set d. \<not> same_key (SuggestedTargetPath r) (path t)) \<and> join_row S d sm i r = Inr x \<longrightarrow>
        TargetSchema x = [] \<and> TargetType x = [] \<and> Occurs x = ''..'')
   \<and> (join_row S d sm i r = Inl e \<longleftrightarrow>
        join_row S d' sm i (r \<lparr> SuggestedTargetPath := p \<rparr>) = Inl e)
   \<and> (SourceField r = JStr c \<longrightarrow> (\<exists>y. join_row S d sm i r = Inr y))
   \<and> (api_map P N S orc fs d sm = Inr (bySource, byScore) \<longrightarrow>
        (\<forall>q\<in>set bySource. (\<forall>t\<in>set d. \<not> same_key (SuggestedTargetPath q) (path t)) \<longrightarrow>
           TargetSchema q = [] \<and> TargetType q = [] \<and> Occurs q = ''..''))"
proof -
  have key: "same_key (JStr s) v \<longleftrightarrow> v = JStr s"
    by (auto simp: same_key_def)
  have blank: "TargetSchema x = [] \<and> TargetType x = [] \<and> Occurs x = ''..''"
    if "\<forall>t\<in>set d. \<not> same_key (SuggestedTargetPath r) (path t)" "join_row S d sm i r = Inr x"
    using that by (rule join_row_unmatched)
  have indep: "join_row S d sm i r = Inl e \<longleftrightarrow>
        join_row S d' sm i (r \<lparr> SuggestedTargetPath := p \<rparr>) = Inl e"
    by (simp add: join_row_Inl)
  have str: "\<exists>y. join_row S d sm i r = Inr y" if "SourceField r = JStr c"
    using that by (simp add: join_row_def String_of_def Let_def)
  have rows: "TargetSchema q = [] \<and> TargetType q = [] \<and> Occurs q = ''..''"
    if a: "api_map P N S orc fs d sm = Inr (bySource, byScore)" and q: "q \<in> set bySource"
      and u: "\<forall>t\<in>set d. \<not> same_key (SuggestedTargetPath q) (path t)" for q
  proof -
    from bySource_row [OF a q] obtain k z where j: "join_row S d sm k z = Inr q" by blast
    with u have "\<forall>t\<in>set d. \<not> same_key (SuggestedTargetPath z) (path t)"
      by (simp add: join_row_fields)
    then show ?thesis using j by (rule join_row_unmatched)
  qed
  from key blank indep str rows show ?thesis
    by (simp add: extraByPath_None)
qed

theorem C9_unmatched_witness:
  "api_map example_parse example_Number example_String (\<lambda>i batch. Inr (JStr content_three))
     [''Amount'', ''Id'', ''Name'', ''Date''] example_dict example_samples = Inr (bySource_three, byScore_three)
   \<and> bySource_three ! 1 \<in> set bySource_three
   \<and> SuggestedTargetPath (bySource_three ! 1) = JStr ''Invoice/Customer''
   \<and> map path example_dict = [JStr ''Invoice/Id'', JStr ''Invoice/Total'']
   \<and> TargetSchema (bySource_three ! 1) = [] \<and> TargetType (bySource_three ! 1) = []
   \<and> Occurs (bySource_three ! 1) = ''..''
   \<and> join_row example_String example_dict example_samples 1
        \<lparr> SourceField = JStr ''Name'', SuggestedTargetPath = JStr ''Invoice/Customer'',
          MatchScore = Fin (9 / 10), Rationale = JStr [] \<rparr> = Inr (bySource_three ! 1)"
proof -
  let ?r = "\<lparr> SourceField = JStr ''Name'', SuggestedTargetPath = JStr ''Invoice/Customer'',
          MatchScore = Fin (9 / 10), Rationale = JStr [] \<rparr>"
  have e: "api_map example_parse example_Number example_String (\<lambda>i batch. Inr (JStr content_three))
     [''Amount'', ''Id'', ''Name'', ''Date''] example_dict example_samples = Inr (bySource_three, byScore_three)"
    by (rule api_map_three)
  have m: "bySource_three ! 1 \<in> set bySource_three"
    by (simp add: bySource_three_def)
  have p: "SuggestedTargetPath (bySource_three ! 1) = JStr ''Invoice/Customer''"
    by (simp add: bySource_three_def example_row_def)
  have d: "map path example_dict = [JStr ''Invoice/Id'', JStr ''Invoice/Total'']"
    by (simp add: example_dict_def)
  have u: "\<forall>t\<in>set example_dict. \<not> same_key (SuggestedTargetPath (bySource_three ! 1)) (path t)"
    unfolding p by (simp add: example_dict_def same_key_def)
  have j: "join_row example_String example_dict example_samples 1 ?r = Inr (bySource_three ! 1)"
    by (simp add: assemble_eval example_dict_def example_samples_def bySource_three_def
        example_row_def)
  from C9_unmatched [of example_dict ?r "[]" JNull example_String example_samples 1
      "bySource_three ! 1" TypeError "[]" JNull "''Name''" example_parse example_Number
      "\<lambda>i batch. Inr (JStr content_three)" "[''Amount'', ''Id'', ''Name'', ''Date'']"
      bySource_three byScore_three] e m u
  have "TargetSchema (bySource_three ! 1) = [] \<and> TargetType (bySource_three ! 1) = []
    \<and> Occurs (bySource_three ! 1) = ''..''"
    by blast
  with e m p d j show ?thesis by blast
qed

text \<open>
  C9 as stated fails for the row of Name in the example: its path has no entry in the
  dictionary, and its occurs field is \<open>..\<close>, not blank.
\<close>

theorem C9_counterexample:
  "api_map example_parse example_Number example_String (\<lambda>i batch. Inr (JStr content_three))
     [''Amount'', ''Id'', ''Name'', ''Date''] example_dict example_samples = Inr (bySource_three, byScore_three)
   \<and> SuggestedTargetPath (bySource_three ! 1) = JStr ''Invoice/Customer''
   \<and> map path example_dict = [JStr ''Invoice/Id'', JStr ''Invoice/Total'']
   \<and> Occurs (bySource_three ! 1) = ''..''
   \<and> Occurs (bySource_three ! 1) \<noteq> []"
  by (simp add: api_map_three) (simp add: bySource_three_def example_row_def example_dict_def)

text \<open>
  C7 (as amended). For every oracle response, the client succeeds exactly when the
  content, parsed if it is a text, has one of the shapes of \<open>accepted_shape\<close>, no element
  of the mapping list is \<open>null\<close> and \<open>Number\<close> converts the score of every element: an
  array; a value whose \<open>mappings\<close> is an array; or any value other than \<open>null\<close> and an
  array whose \<open>mappings\<close> is missing or falsy (an object without \<open>mappings\<close>, a number, a
  string, a boolean), which is interpreted as the empty mapping list. An element gives one
  mapping, a missing or falsy \<open>source\<close>, \<open>target_path\<close> or \<open>rationale\<close> being the empty
  string and the score being coerced as in C1. Every other response is a hard failure: an
  error of the call, a text that is not JSON, \<open>null\<close>, a truthy \<open>mappings\<close> that is not
  an array, a \<open>null\<close> element, an element whose score has no primitive value.
\<close>

theorem C7_accepted_shapes:
  "(aoaiMapBatch P N (Inr text) = Inr rows \<longleftrightarrow>
      (\<exists>obj ms. parse_content P text = Inr obj \<and> accepted_shape obj ms
         \<and> list_all2 (\<lambda>m r. \<not> nullish m
               \<and> (\<exists>x. ToNumber N (get_prop m ''score'') = Inr x \<and> r = item_row m x)) ms rows))
   \<and> aoaiMapBatch P N (Inl e) = Inl e
   \<and> (P s = None \<longrightarrow> aoaiMapBatch P N (Inr (JStr s)) = Inl NonJSON)
   \<and> (accepted_shape obj ms \<longleftrightarrow>
        obj = JArr ms
        \<or> (\<exists>kvs. obj = JObj kvs \<and> map_of kvs ''mappings'' = Some (JArr ms))
        \<or> (ms = [] \<and> obj \<noteq> JUndefined \<and> obj \<noteq> JNull \<and> (\<nexists>xs. obj = JArr xs)
             \<and> \<not> truthy (get_prop obj ''mappings'')))"
proof -
  have "accepted_shape obj ms \<longleftrightarrow>
        obj = JArr ms
        \<or> (\<exists>kvs. obj = JObj kvs \<and> map_of kvs ''mappings'' = Some (JArr ms))
        \<or> (ms = [] \<and> obj \<noteq> JUndefined \<and> obj \<noteq> JNull \<and> (\<nexists>xs. obj = JArr xs)
             \<and> \<not> truthy (get_prop obj ''mappings''))"
    by (cases obj) (auto simp: accepted_shape_def nullish_def get_prop_def split: option.splits)
  moreover have "aoaiMapBatch P N (Inr text) = Inr rows \<longleftrightarrow>
      (\<exists>obj ms. parse_content P text = Inr obj \<and> accepted_shape obj ms
         \<and> list_all2 (\<lambda>m r. \<not> nullish m
               \<and> (\<exists>x. ToNumber N (get_prop m ''score'') = Inr x \<and> r = item_row m x)) ms rows)"
    unfolding aoaiMapBatch_Inr map_item_Inr ..
  moreover have "aoaiMapBatch P N (Inl e) = Inl e"
    by (simp add: aoaiMapBatch_def)
  moreover have "P s = None \<longrightarrow> aoaiMapBatch P N (Inr (JStr s)) = Inl NonJSON"
    by (simp add: aoaiMapBatch_def parse_content_def)
  ultimately show ?thesis by blast
qed

theorem C7_accepted_shapes_witness:
  "aoaiMapBatch example_parse example_Number (Inr (JStr content_five))
     = Inr [\<lparr> SourceField = JStr ''Id'', SuggestedTargetPath = JStr ''Invoice/Id'',
               MatchScore = Fin 5, Rationale = JStr [] \<rparr>]
   \<and> parse_content example_parse (JStr content_five) = Inr value_five
   \<and> accepted_shape value_five
        [JObj [(''source'', JStr ''Id''), (''target_path'', JStr ''Invoice/Id''),
               (''score'', JNum (Fin 5))]]
   \<and> example_parse ''not json'' = None
   \<and> aoaiMapBatch example_parse example_Number (Inr (JStr ''not json'')) = Inl NonJSON
   \<and> aoaiMapBatch example_parse example_Number (Inr (JStr content_score)) = Inl TypeError"
proof -
  let ?m = "JObj [(''source'', JStr ''Id''), (''target_path'', JStr ''Invoice/Id''),
               (''score'', JNum (Fin 5))]"
  let ?r = "\<lparr> SourceField = JStr ''Id'', SuggestedTargetPath = JStr ''Invoice/Id'',
               MatchScore = Fin 5, Rationale = JStr [] \<rparr>"
  have p: "parse_content example_parse (JStr content_five) = Inr value_five"
    by (simp add: parse_content_def example_parse_simps)
  have n: "example_parse ''not json'' = None"
    by (rule example_parse_not_json)
  have a: "accepted_shape value_five [?m]"
    using C7_accepted_shapes [of example_parse example_Number "JStr ''not json''" "[]" TypeError
        "''not json''" value_five "[?m]"]
    by (simp add: value_five_def)
  have i: "\<not> nullish ?m \<and> (\<exists>x. ToNumber example_Number (get_prop ?m ''score'') = Inr x \<and> ?r = item_row ?m x)"
    by (simp add: nullish_def ToNumber_def get_prop_def item_row_def or_empty_def)
  have "aoaiMapBatch example_parse example_Number (Inr (JStr content_five)) = Inr [?r]"
    using C7_accepted_shapes [of example_parse example_Number "JStr content_five"
        "[?r]" TypeError "''not json''" value_five "[?m]"] p a i
    by auto
  moreover have "aoaiMapBatch example_parse example_Number (Inr (JStr ''not json'')) = Inl NonJSON"
    using C7_accepted_shapes [of example_parse example_Number "JStr ''not json''" "[]" TypeError
        "''not json''" value_five "[?m]"] n
    by blast
  ultimately show ?thesis using p a n aoai_score_object
    by simp
qed

text \<open>
  C7 as stated fails for the reply \<open>{}\<close>: an object without \<open>mappings\<close> is neither of
  the two shapes, and the client returns the empty mapping list instead of failing.
\<close>

theorem C7_counterexample:
  "example_parse ''{}'' = Some (JObj [])
   \<and> aoaiMapBatch example_parse example_Number (Inr (JStr ''{}'')) = Inr []"
  by (simp add: example_parse_simps aoai_empty_object)

section \<open>The example schemas evaluated\<close>

lemmas xsd_eval =
  parseXsdPaths_def schema_of_def get_prop_def tag_list_def as_array_def nullish_def
  table_set_def table_get_def inherited_def Object_prototype_names_def builtin_def
  String_of_def walk_vars_def elName_of_def pathStr_of_def tname_of_def local_part_def
  inline_type_def ct_of_def childElements_def occurs_of_def leaf_type_def leaf_row_def
  dedupe_def key_of_def targetDict_of_def values_of_def is_object_def Let_def

text \<open>The invoice schema: the second Id below Invoice is dropped by the filter.\<close>

lemma parseXsdPaths_example:
  "parseXsdPaths (Suc (Suc (Suc 0))) example_String ''invoice.xsd'' example_doc =
     Some (Inr [example_entry ''invoice.xsd'' ''Invoice/Id'' ''Id'' ''string'' ''1'',
                example_entry ''invoice.xsd'' ''Invoice/Total'' ''Total'' ''decimal'' ''0'',
                example_entry ''invoice.xsd'' ''Invoice/Buyer/Name'' ''Name'' ''string'' ''1''])"
  by (simp add: example_doc_def example_entry_def xsd_eval)

lemma parse_bar_doc:
  "parseXsdPaths (Suc 0) example_String file (bar_doc (c # cs)) = Some (Inr [bar_entry file (c # cs)])"
  by (simp add: bar_doc_def bar_entry_def xsd_eval)

lemma targetDict_bar:
  "targetDict_of example_String [[bar_entry ''a|b'' ''c''], [bar_entry ''a'' ''b|c'']]
   = Inr [bar_entry ''a|b'' ''c'']"
  by (simp add: bar_entry_def xsd_eval)

lemma proto_schema:
  "schema_of proto_doc =
     JObj [(''xmlns:xs'', JStr ''http://www.w3.org/2001/XMLSchema''),
           (''xs:element'', JObj [(''name'', JStr ''Root''), (''type'', JStr ''foo'')]),
           (''xs:complexType'', proto_type)]"
  by (simp add: proto_doc_def schema_of_def get_prop_def)

lemma proto_tags:
  "tag_list (schema_of proto_doc) ''xs:complexType'' = [proto_type]"
  "tag_list (schema_of proto_doc) ''xs:element'' = [JObj [(''name'', JStr ''Root''), (''type'', JStr ''foo'')]]"
  by (simp_all add: proto_schema tag_list_def get_prop_def as_array_def proto_type_def)

lemma proto_table:
  "complexTypes_of S [proto_type] \<lparr> own = [], proto = None \<rparr>
   = Inr \<lparr> own = [], proto = Some proto_type \<rparr>"
  by (simp add: proto_type_def get_prop_def nullish_def String_of_def table_set_def)

lemma proto_foo:
  "table_get \<lparr> own = [], proto = Some proto_type \<rparr> ''foo''
   = JObj [(''xs:sequence'', JObj [(''xs:element'', loop_el)])]"
  by (simp add: table_get_def proto_type_def)

lemma proto_kids:
  "childElements (JObj [(''xs:sequence'', JObj [(''xs:element'', loop_el)])]) = [loop_el]"
  by (simp add: childElements_def get_prop_def as_array_def loop_el_def Let_def)

text \<open>The walk of Loop exceeds every bound, and so does the walk of Root.\<close>

lemma walk_loop:
  "walk n S nm \<lparr> own = [], proto = Some proto_type \<rparr> loop_el (JStr p) = None"
proof (induction n arbitrary: p)
  case 0
  show ?case by simp
next
  case (Suc n)
  have v: "walk_vars S loop_el (JStr p) =
      Inr (JStr ''Loop'', JStr (if p = [] then ''Loop'' else p @ ''/Loop''), Some ''foo'')"
    by (simp add: walk_vars_def loop_el_def nullish_def elName_of_def pathStr_of_def tname_of_def
        get_prop_def String_of_def local_part_def)
  have c: "ct_of \<lparr> own = [], proto = Some proto_type \<rparr> (Some ''foo'') loop_el
      = JObj [(''xs:sequence'', JObj [(''xs:element'', loop_el)])]"
    by (simp add: ct_of_def proto_foo)
  show ?case
    by (simp add: v c proto_kids Suc.IH Let_def)
qed

lemma walk_root:
  "walk n S nm \<lparr> own = [], proto = Some proto_type \<rparr>
     (JObj [(''name'', JStr ''Root''), (''type'', JStr ''foo'')]) (JStr []) = None"
proof (cases n)
  case 0
  then show ?thesis by simp
next
  case (Suc k)
  let ?root = "JObj [(''name'', JStr ''Root''), (''type'', JStr ''foo'')]"
  have v: "walk_vars S ?root (JStr []) = Inr (JStr ''Root'', JStr ''Root'', Some ''foo'')"
    by (simp add: walk_vars_def nullish_def elName_of_def pathStr_of_def tname_of_def
        get_prop_def String_of_def local_part_def)
  have c: "ct_of \<lparr> own = [], proto = Some proto_type \<rparr> (Some ''foo'') ?root
      = JObj [(''xs:sequence'', JObj [(''xs:element'', loop_el)])]"
    by (simp add: ct_of_def proto_foo)
  show ?thesis
    unfolding Suc by (simp add: v c proto_kids walk_loop Let_def)
qed

section \<open>The rows of \<open>walk\<close>\<close>






section \<open>Elements without a name\<close>



















section \<open>The claims about the flattening\<close>

text \<open>
  C4 says that of the entries with one (schema, path) the first one stays, in discovery
  order, and that only later duplicates are dropped. It fails on the code for the two
  files \<open>a|b\<close>, which declares the element \<open>c\<close>, and \<open>a\<close>, which declares the element
  \<open>b|c\<close>. Each file is flattened to its one entry, and the two entries differ in schema
  and in path; but both have the key \<open>a|b|c\<close> in the filter of the merged dictionary, so
  that the entry of the file \<open>a\<close>, the first and only one with its schema and path, is
  dropped as a duplicate.
\<close>

theorem C4_key_collision:
  "parseXsdPaths (Suc 0) example_String ''a|b'' (bar_doc ''c'') = Some (Inr [bar_entry ''a|b'' ''c''])
   \<and> parseXsdPaths (Suc 0) example_String ''a'' (bar_doc ''b|c'') = Some (Inr [bar_entry ''a'' ''b|c''])
   \<and> key_of example_String (bar_entry ''a|b'' ''c'') = Inr ''a|b|c''
   \<and> key_of example_String (bar_entry ''a'' ''b|c'') = Inr ''a|b|c''
   \<and> targetDict_of example_String [[bar_entry ''a|b'' ''c''], [bar_entry ''a'' ''b|c'']]
       = Inr [bar_entry ''a|b'' ''c'']
   \<and> schema (bar_entry ''a'' ''b|c'') \<noteq> schema (bar_entry ''a|b'' ''c'')
   \<and> path (bar_entry ''a'' ''b|c'') \<noteq> path (bar_entry ''a|b'' ''c'')
   \<and> find (\<lambda>r. schema r = ''a'' \<and> path r = JStr ''b|c'')
         (concat [[bar_entry ''a|b'' ''c''], [bar_entry ''a'' ''b|c'']]) = Some (bar_entry ''a'' ''b|c'')
   \<and> bar_entry ''a'' ''b|c'' \<notin> set [bar_entry ''a|b'' ''c'']"
  by (simp add: parse_bar_doc targetDict_bar) (simp add: bar_entry_def key_of_def String_of_def)

text \<open>
  C8 says that flatten returns a list of entries for every schema whose references
  between named complex types have no cycle. It fails on the code for the schema
  \<open>proto_doc\<close>. That schema declares one complex type, of the name \<open>__proto__\<close>, and its
  two elements have the type \<open>foo\<close>: no element refers to a named complex type, and so
  the references between named complex types have no cycle.
  But the assignment \<open>complexTypes['__proto__'] = ct\<close> makes the node of that type the
  prototype of the table, \<open>complexTypes['foo']\<close> is then the tag \<open>foo\<close> of that node, and
  the element Loop in it has the type \<open>foo\<close> again: the walk of Loop, and with it
  \<open>parseXsdPaths\<close>, exceeds every bound on the depth of the recursion and returns no
  entries.
\<close>

theorem C8_proto_recursion:
  "parseXsdPaths n S nm proto_doc = None
   \<and> tag_list (schema_of proto_doc) ''xs:complexType'' = [proto_type]
   \<and> get_prop proto_type ''name'' = JStr ''__proto__''
   \<and> tag_list (schema_of proto_doc) ''xs:element'' = [JObj [(''name'', JStr ''Root''), (''type'', JStr ''foo'')]]
   \<and> childElements (get_prop proto_type ''foo'') = [loop_el]
   \<and> tname_of S loop_el = Inr (Some ''foo'')
   \<and> complexTypes_of S [proto_type] \<lparr> own = [], proto = None \<rparr>
       = Inr \<lparr> own = [], proto = Some proto_type \<rparr>
   \<and> table_get \<lparr> own = [], proto = Some proto_type \<rparr> ''foo'' = get_prop proto_type ''foo''
   \<and> walk n S nm \<lparr> own = [], proto = Some proto_type \<rparr> loop_el (JStr ''Root'') = None"
proof -
  have "\<not> nullish proto_doc" "truthy (schema_of proto_doc)"
    by (simp_all add: proto_schema) (simp add: nullish_def proto_doc_def)
  then have "parseXsdPaths n S nm proto_doc = None"
    by (simp add: parseXsdPaths_def proto_tags proto_table walk_root
        del: complexTypes_of.simps walk.simps)
  moreover have "get_prop proto_type ''foo'' = JObj [(''xs:sequence'', JObj [(''xs:element'', loop_el)])]"
    by (simp add: proto_type_def get_prop_def)
  moreover have "get_prop proto_type ''name'' = JStr ''__proto__''"
    by (simp add: proto_type_def get_prop_def)
  moreover have "tname_of S loop_el = Inr (Some ''foo'')"
    by (simp add: tname_of_def loop_el_def get_prop_def String_of_def local_part_def)
  ultimately show ?thesis
    by (simp add: proto_tags proto_kids proto_table proto_foo walk_loop
        del: complexTypes_of.simps walk.simps)
qed




end
